theory Spec2Isabelle
  imports Complex_Main
begin

section \<open>JavaScript values\<close>

text \<open>
  The client of \<^verbatim>\<open>src/clients/HederaDeFi.ts\<close> handles response bodies of type
  \<^verbatim>\<open>any\<close>, so the payloads are modelled as dynamically typed values.
  A JavaScript number is a finite real, one of the two infinities or \<^verbatim>\<open>NaN\<close>.
  Finite numbers are exact: the rounding to the nearest double and the sign of zero are
  outside this model. A sum, a product or a decimal literal whose exact value is beyond
  the range of doubles is an infinity, as it is after rounding; the integer that
  \<^verbatim>\<open>parseInt\<close> reads and a quotient of finite numbers are kept exact.
\<close>

datatype jsnum = Fin real | PInf | NInf | NaN

text \<open>The least magnitude that rounds to an infinity: halfway between the largest
  double and \<open>2^1024\<close>.\<close>

definition overflowBound :: real where
  "overflowBound = 2 ^ 1024 - 2 ^ 970"

definition fromReal :: "real \<Rightarrow> jsnum" where
  "fromReal r =
     (if r \<ge> overflowBound then PInf else if r \<le> - overflowBound then NInf else Fin r)"

datatype jsval =
    Undefined
  | Null
  | Bool bool
  | Num jsnum
  | Str string
  | Arr "jsval list"
  | Obj "(string \<times> jsval) list"

text \<open>ToBoolean: \<^verbatim>\<open>undefined\<close>, \<^verbatim>\<open>null\<close>, \<^verbatim>\<open>false\<close>, \<^verbatim>\<open>0\<close>,
  \<^verbatim>\<open>NaN\<close> and the empty string are falsy, everything else is truthy.\<close>

fun truthy :: "jsval \<Rightarrow> bool" where
  "truthy Undefined = False"
| "truthy Null = False"
| "truthy (Bool b) = b"
| "truthy (Num (Fin r)) = (r \<noteq> 0)"
| "truthy (Num NaN) = False"
| "truthy (Num PInf) = True"
| "truthy (Num NInf) = True"
| "truthy (Str s) = (s \<noteq> [])"
| "truthy (Arr xs) = True"
| "truthy (Obj kvs) = True"

text \<open>The operator \<^verbatim>\<open>a || b\<close>.\<close>

definition jsOr :: "jsval \<Rightarrow> jsval \<Rightarrow> jsval" where
  "jsOr a b = (if truthy a then a else b)"

text \<open>\<^verbatim>\<open>typeof v === 'object'\<close> holds of objects, arrays and \<^verbatim>\<open>null\<close>.\<close>

fun isObjectType :: "jsval \<Rightarrow> bool" where
  "isObjectType (Obj kvs) = True"
| "isObjectType (Arr xs) = True"
| "isObjectType Null = True"
| "isObjectType v = False"

fun isArray :: "jsval \<Rightarrow> bool" where
  "isArray (Arr xs) = True"
| "isArray v = False"

fun elements :: "jsval \<Rightarrow> jsval list" where
  "elements (Arr xs) = xs"
| "elements v = []"

text \<open>
  Reading a named property \<^verbatim>\<open>v.k\<close> (or \<^verbatim>\<open>v?.k\<close>). In a parsed JSON object the
  last of several equal keys wins. The names read by the client are never array indices
  or \<^verbatim>\<open>length\<close>, so arrays and primitive values answer \<^verbatim>\<open>undefined\<close>.
  On \<^verbatim>\<open>undefined\<close> and \<^verbatim>\<open>null\<close> the plain access \<^verbatim>\<open>v.k\<close> throws a
  TypeError; the functions below test for that case (\<open>nullish\<close>) wherever the source
  reads a property without a guard.
\<close>

fun field :: "jsval \<Rightarrow> string \<Rightarrow> jsval" where
  "field (Obj kvs) k = (case map_of (rev kvs) k of Some v \<Rightarrow> v | None \<Rightarrow> Undefined)"
| "field v k = Undefined"

fun nullish :: "jsval \<Rightarrow> bool" where
  "nullish Undefined = True"
| "nullish Null = True"
| "nullish v = False"

subsection \<open>Arithmetic and comparison on numbers\<close>

fun jsAdd :: "jsnum \<Rightarrow> jsnum \<Rightarrow> jsnum" where
  "jsAdd (Fin a) (Fin b) = fromReal (a + b)"
| "jsAdd NaN b = NaN"
| "jsAdd a NaN = NaN"
| "jsAdd PInf NInf = NaN"
| "jsAdd NInf PInf = NaN"
| "jsAdd PInf b = PInf"
| "jsAdd a PInf = PInf"
| "jsAdd NInf b = NInf"
| "jsAdd a NInf = NInf"

fun jsMul :: "jsnum \<Rightarrow> jsnum \<Rightarrow> jsnum" where
  "jsMul (Fin a) (Fin b) = fromReal (a * b)"
| "jsMul NaN b = NaN"
| "jsMul a NaN = NaN"
| "jsMul PInf (Fin b) = (if b = 0 then NaN else if b > 0 then PInf else NInf)"
| "jsMul NInf (Fin b) = (if b = 0 then NaN else if b > 0 then NInf else PInf)"
| "jsMul (Fin a) PInf = (if a = 0 then NaN else if a > 0 then PInf else NInf)"
| "jsMul (Fin a) NInf = (if a = 0 then NaN else if a > 0 then NInf else PInf)"
| "jsMul PInf PInf = PInf"
| "jsMul PInf NInf = NInf"
| "jsMul NInf PInf = NInf"
| "jsMul NInf NInf = PInf"

text \<open>
  Division. A zero divisor is the positive zero (the model has no negative zero). The
  quotient of two finite numbers is kept exact: the client divides by the constants
  \<open>10^8\<close> and \<open>10^6\<close>, which cannot overflow, and by the total of a percentage, where
  the quotient is multiplied by 100 next and that product is cut off at the range of
  doubles.
\<close>

fun jsDiv :: "jsnum \<Rightarrow> jsnum \<Rightarrow> jsnum" where
  "jsDiv (Fin a) (Fin b) =
     (if b = 0 then (if a = 0 then NaN else if a > 0 then PInf else NInf) else Fin (a / b))"
| "jsDiv NaN b = NaN"
| "jsDiv a NaN = NaN"
| "jsDiv (Fin a) PInf = Fin 0"
| "jsDiv (Fin a) NInf = Fin 0"
| "jsDiv PInf (Fin b) = (if b \<ge> 0 then PInf else NInf)"
| "jsDiv NInf (Fin b) = (if b \<ge> 0 then NInf else PInf)"
| "jsDiv a b = NaN"

text \<open>\<^verbatim>\<open>a > b\<close>: false as soon as one side is \<^verbatim>\<open>NaN\<close>.\<close>

fun jsGt :: "jsnum \<Rightarrow> jsnum \<Rightarrow> bool" where
  "jsGt (Fin a) (Fin b) = (a > b)"
| "jsGt NaN b = False"
| "jsGt a NaN = False"
| "jsGt PInf PInf = False"
| "jsGt PInf b = True"
| "jsGt a PInf = False"
| "jsGt NInf b = False"
| "jsGt a NInf = True"

subsection \<open>The built-in parsers \<^verbatim>\<open>parseInt\<close> and \<^verbatim>\<open>parseFloat\<close>\<close>

text \<open>Strings are lists of characters; the white space skipped by the parsers is
  the ASCII part of the ECMAScript set (tab, line feed, vertical tab, form feed,
  carriage return, space).\<close>

definition isWhiteSpace :: "char \<Rightarrow> bool" where
  "isWhiteSpace c = ((of_char c :: nat) \<in> {9, 10, 11, 12, 13, 32})"

definition isDigit :: "char \<Rightarrow> bool" where
  "isDigit c = (48 \<le> (of_char c :: nat) \<and> (of_char c :: nat) \<le> 57)"

definition digitValue :: "char \<Rightarrow> nat option" where
  "digitValue c =
     (let n = (of_char c :: nat)
      in if 48 \<le> n \<and> n \<le> 57 then Some (n - 48)
         else if 97 \<le> n \<and> n \<le> 122 then Some (n - 87)
         else if 65 \<le> n \<and> n \<le> 90 then Some (n - 55)
         else None)"

definition isRadixDigit :: "nat \<Rightarrow> char \<Rightarrow> bool" where
  "isRadixDigit R c = (case digitValue c of Some d \<Rightarrow> d < R | None \<Rightarrow> False)"

definition digitsValue :: "nat \<Rightarrow> string \<Rightarrow> nat" where
  "digitsValue R ds = foldl (\<lambda>acc c. acc * R + the (digitValue c)) 0 ds"

text \<open>
  \<^verbatim>\<open>parseInt(string)\<close> without a radix: skip leading white space, read a sign,
  switch to radix 16 after \<^verbatim>\<open>0x\<close> or \<^verbatim>\<open>0X\<close>, and read the longest run of
  digits; \<^verbatim>\<open>NaN\<close> when that run is empty.
\<close>

definition parseInt :: "string \<Rightarrow> jsnum" where
  "parseInt inputString =
     (let s = dropWhile isWhiteSpace inputString;
          neg = (s \<noteq> [] \<and> hd s = CHR ''-'');
          s = (if s \<noteq> [] \<and> (hd s = CHR ''+'' \<or> hd s = CHR ''-'') then tl s else s);
          hex = (take 2 s = ''0x'' \<or> take 2 s = ''0X'');
          R = (if hex then 16 else 10);
          s = (if hex then drop 2 s else s);
          z = takeWhile (isRadixDigit R) s
      in if z = [] then NaN
         else Fin ((if neg then - 1 else 1) * real (digitsValue R z)))"

text \<open>
  The longest prefix of a string that is an unsigned decimal literal (digits, an optional
  fraction, an optional exponent that counts only when it has digits), as its exact value
  together with the rest of the string; \<open>None\<close> when there is no digit before the
  exponent.
\<close>

definition decimalLiteral :: "string \<Rightarrow> (real \<times> string) option" where
  "decimalLiteral s0 =
     (let ip = takeWhile isDigit s0;
          s1 = dropWhile isDigit s0;
          dot = (s1 \<noteq> [] \<and> hd s1 = CHR ''.'');
          fp = (if dot then takeWhile isDigit (tl s1) else []);
          s2 = (if dot then dropWhile isDigit (tl s1) else s1);
          ex = (s2 \<noteq> [] \<and> (hd s2 = CHR ''e'' \<or> hd s2 = CHR ''E''));
          s3 = (if ex then tl s2 else s2);
          eneg = (s3 \<noteq> [] \<and> hd s3 = CHR ''-'');
          s4 = (if s3 \<noteq> [] \<and> (hd s3 = CHR ''+'' \<or> hd s3 = CHR ''-'') then tl s3 else s3);
          ep = (if ex then takeWhile isDigit s4 else []);
          rest = (if ep = [] then s2 else dropWhile isDigit s4);
          mantissa = real (digitsValue 10 (ip @ fp)) / 10 ^ length fp;
          scaled = (if eneg then mantissa / 10 ^ digitsValue 10 ep
                    else mantissa * 10 ^ digitsValue 10 ep)
      in if ip = [] \<and> fp = [] then None else Some (scaled, rest))"

text \<open>
  \<^verbatim>\<open>parseFloat(string)\<close>: skip leading white space, read a sign, then the literal
  \<^verbatim>\<open>Infinity\<close> or the longest prefix that is a decimal literal; \<^verbatim>\<open>NaN\<close> when
  there is neither.
\<close>

definition parseFloat :: "string \<Rightarrow> jsnum" where
  "parseFloat inputString =
     (let s = dropWhile isWhiteSpace inputString;
          neg = (s \<noteq> [] \<and> hd s = CHR ''-'');
          s = (if s \<noteq> [] \<and> (hd s = CHR ''+'' \<or> hd s = CHR ''-'') then tl s else s)
      in if take 8 s = ''Infinity'' then (if neg then NInf else PInf)
         else case decimalLiteral s of
                None \<Rightarrow> NaN
              | Some (v, rest) \<Rightarrow> fromReal ((if neg then - 1 else 1) * v))"

text \<open>
  The conversion of a string to a number (\<^verbatim>\<open>Number(string)\<close>, applied by the
  arithmetic operators): white space is trimmed at both ends; the empty string is 0; the
  whole rest must be a signed decimal literal, a signed \<^verbatim>\<open>Infinity\<close>, or an unsigned
  integer with the prefix \<^verbatim>\<open>0x\<close>, \<^verbatim>\<open>0o\<close> or \<^verbatim>\<open>0b\<close>; everything else is
  \<^verbatim>\<open>NaN\<close>.
\<close>

definition radixLiteral :: "nat \<Rightarrow> string \<Rightarrow> jsnum" where
  "radixLiteral R ds =
     (if ds \<noteq> [] \<and> list_all (isRadixDigit R) ds then fromReal (real (digitsValue R ds)) else NaN)"

definition stringToNumber :: "string \<Rightarrow> jsnum" where
  "stringToNumber inputString =
     (let t = rev (dropWhile isWhiteSpace (rev (dropWhile isWhiteSpace inputString)));
          neg = (t \<noteq> [] \<and> hd t = CHR ''-'');
          u = (if t \<noteq> [] \<and> (hd t = CHR ''+'' \<or> hd t = CHR ''-'') then tl t else t)
      in if t = [] then Fin 0
         else if take 2 t = ''0x'' \<or> take 2 t = ''0X'' then radixLiteral 16 (drop 2 t)
         else if take 2 t = ''0o'' \<or> take 2 t = ''0O'' then radixLiteral 8 (drop 2 t)
         else if take 2 t = ''0b'' \<or> take 2 t = ''0B'' then radixLiteral 2 (drop 2 t)
         else if u = ''Infinity'' then (if neg then NInf else PInf)
         else case decimalLiteral u of
                Some (v, []) \<Rightarrow> fromReal ((if neg then - 1 else 1) * v)
              | _ \<Rightarrow> NaN)"

section \<open>Utility functions (\<^verbatim>\<open>src/utils\<close>)\<close>

text \<open>\<^verbatim>\<open>validateAccountId\<close>: the test of the pattern \<^verbatim>\<open>/^0\.0\.\d+$/\<close>.\<close>

definition validateAccountId :: "string \<Rightarrow> bool" where
  "validateAccountId accountId =
     (take 4 accountId = ''0.0.'' \<and> drop 4 accountId \<noteq> [] \<and> list_all isDigit (drop 4 accountId))"

text \<open>
  \<^verbatim>\<open>parseUsdValue\<close>: 0 for the empty string and for \<^verbatim>\<open>"0"\<close>; otherwise
  \<^verbatim>\<open>parseFloat\<close> of the string without its \<^verbatim>\<open>$\<close> and \<^verbatim>\<open>,\<close> characters.
  The \<^verbatim>\<open>catch\<close> branch of the source returns 0, but \<^verbatim>\<open>String.replace\<close> and
  \<^verbatim>\<open>parseFloat\<close> never throw on a string, so no string reaches it.
\<close>

definition parseUsdValue :: "string \<Rightarrow> jsnum" where
  "parseUsdValue usdString =
     (if usdString = [] \<or> usdString = ''0'' then Fin 0
      else parseFloat (filter (\<lambda>c. c \<noteq> CHR ''$'' \<and> c \<noteq> CHR '','') usdString))"

text \<open>
  \<^verbatim>\<open>parseInt(v)\<close> on a value of type \<^verbatim>\<open>any\<close>: the built-in first converts
  its argument to a string. A string is parsed as it is; \<^verbatim>\<open>undefined\<close>,
  \<^verbatim>\<open>null\<close>, the booleans and plain objects print without a leading digit; an array
  prints its elements separated by commas, so only its first element counts. A number
  prints in decimal notation, so that the result is the number cut off at the decimal point
  (exact for the integers below \<^verbatim>\<open>1e21\<close>; numbers printed in exponent notation are
  outside the model).
\<close>

definition truncate :: "real \<Rightarrow> int" where
  "truncate r = (if r \<ge> 0 then \<lfloor>r\<rfloor> else \<lceil>r\<rceil>)"

fun parseIntAny :: "jsval \<Rightarrow> jsnum" where
  "parseIntAny (Str s) = parseInt s"
| "parseIntAny (Num (Fin r)) = Fin (of_int (truncate r))"
| "parseIntAny (Num NaN) = NaN"
| "parseIntAny (Arr (x # xs)) = parseIntAny x"
| "parseIntAny v = NaN"

subsection \<open>Conversions of values of type \<^verbatim>\<open>any\<close>\<close>

text \<open>
  The conversion to a number (\<^verbatim>\<open>ToNumber\<close>), for the values that convert without
  an exception. An array converts through its string form, its elements joined by commas:
  the empty array is 0, an array of two or more elements is \<^verbatim>\<open>NaN\<close>, and an array of
  one element is that element printed and read back (\<^verbatim>\<open>null\<close> and
  \<^verbatim>\<open>undefined\<close> print as the empty string, a number reads back as itself). A plain
  object prints as \<^verbatim>\<open>[object Object]\<close>, which is \<^verbatim>\<open>NaN\<close>.
\<close>

fun jsToNumber :: "jsval \<Rightarrow> jsnum" where
  "jsToNumber Undefined = NaN"
| "jsToNumber Null = Fin 0"
| "jsToNumber (Bool b) = Fin (if b then 1 else 0)"
| "jsToNumber (Num n) = n"
| "jsToNumber (Str s) = stringToNumber s"
| "jsToNumber (Obj kvs) = NaN"
| "jsToNumber (Arr []) = Fin 0"
| "jsToNumber (Arr [Undefined]) = Fin 0"
| "jsToNumber (Arr [Null]) = Fin 0"
| "jsToNumber (Arr [Bool b]) = NaN"
| "jsToNumber (Arr [x]) = jsToNumber x"
| "jsToNumber (Arr (x # y # zs)) = NaN"

text \<open>
  The conversion to a string (\<^verbatim>\<open>ToString\<close>) throws a TypeError on an object that
  has a key \<^verbatim>\<open>toString\<close> of its own: a value parsed from JSON is never a function,
  so the object has no method left to print itself with. An array prints its elements,
  so it throws when one of them does.
\<close>

fun toStringThrows :: "jsval \<Rightarrow> bool" where
  "toStringThrows (Obj kvs) = (map_of kvs ''toString'' \<noteq> None)"
| "toStringThrows (Arr xs) = list_ex toStringThrows xs"
| "toStringThrows v = False"

text \<open>The call \<^verbatim>\<open>v.toLocaleString()\<close> throws for the same reason, and also when the
  object has a key \<^verbatim>\<open>toLocaleString\<close> of its own.\<close>

fun localeStringThrows :: "jsval \<Rightarrow> bool" where
  "localeStringThrows (Obj kvs) =
     (map_of kvs ''toLocaleString'' \<noteq> None \<or> map_of kvs ''toString'' \<noteq> None)"
| "localeStringThrows (Arr xs) = list_ex localeStringThrows xs"
| "localeStringThrows v = False"

text \<open>The decimal digits of a natural number.\<close>

fun natToString :: "nat \<Rightarrow> string" where
  "natToString n =
     (if n < 10 then [''0123456789'' ! n]
      else natToString (n div 10) @ [''0123456789'' ! (n mod 10)])"

text \<open>
  \<^verbatim>\<open>Number::toString\<close>. An integer below \<open>10^21\<close> prints as its decimal digits. How
  the other finite numbers print depends on their rounding to doubles, which the model
  does not have: their printing is the parameter \<open>printFinite\<close> of the functions that
  need it.
\<close>

definition numberToString :: "(real \<Rightarrow> string) \<Rightarrow> jsnum \<Rightarrow> string" where
  "numberToString printFinite n =
     (case n of
        NaN \<Rightarrow> ''NaN''
      | PInf \<Rightarrow> ''Infinity''
      | NInf \<Rightarrow> ''-Infinity''
      | Fin r \<Rightarrow>
          if r = of_int \<lfloor>r\<rfloor> \<and> \<bar>r\<bar> < 10 ^ 21
          then (if r < 0 then ''-'' @ natToString (nat (- \<lfloor>r\<rfloor>)) else natToString (nat \<lfloor>r\<rfloor>))
          else printFinite r)"

fun joinComma :: "string list \<Rightarrow> string" where
  "joinComma [] = []"
| "joinComma [x] = x"
| "joinComma (x # y # zs) = x @ '','' @ joinComma (y # zs)"

text \<open>\<^verbatim>\<open>ToString\<close>, for the values on which it does not throw.\<close>

fun jsToString :: "(real \<Rightarrow> string) \<Rightarrow> jsval \<Rightarrow> string" where
  "jsToString printFinite Undefined = ''undefined''"
| "jsToString printFinite Null = ''null''"
| "jsToString printFinite (Bool b) = (if b then ''true'' else ''false'')"
| "jsToString printFinite (Num n) = numberToString printFinite n"
| "jsToString printFinite (Str s) = s"
| "jsToString printFinite (Obj kvs) = ''[object Object]''"
| "jsToString printFinite (Arr xs) =
     joinComma (map (\<lambda>x. if nullish x then [] else jsToString printFinite x) xs)"

text \<open>\<^verbatim>\<open>ToPrimitive\<close>: arrays and objects become their string form.\<close>

fun toPrimitive :: "(real \<Rightarrow> string) \<Rightarrow> jsval \<Rightarrow> jsval" where
  "toPrimitive printFinite (Arr xs) = Str (jsToString printFinite (Arr xs))"
| "toPrimitive printFinite (Obj kvs) = Str (jsToString printFinite (Obj kvs))"
| "toPrimitive printFinite v = v"

text \<open>
  The operator \<^verbatim>\<open>a + b\<close> with a number on the right, where the left operand
  converts without an exception: when the left operand is a string, or an array or an
  object (which become strings), the number is printed and appended; otherwise the left
  operand is converted to a number and the two are added.
\<close>

definition jsPlus :: "(real \<Rightarrow> string) \<Rightarrow> jsval \<Rightarrow> jsnum \<Rightarrow> jsval" where
  "jsPlus printFinite a b =
     (case toPrimitive printFinite a of
        Str s \<Rightarrow> Str (s @ numberToString printFinite b)
      | p \<Rightarrow> Num (jsAdd (jsToNumber p) b))"

text \<open>A \<^verbatim>\<open>Date\<close> object is its time value in milliseconds; \<^verbatim>\<open>new Date(ms)\<close>
  is valid only up to 8.64e15 milliseconds either side of the epoch and drops the fraction.\<close>

datatype jsdate = DateMs int

definition newDate :: "real \<Rightarrow> jsdate option" where
  "newDate ms = (if \<bar>ms\<bar> > 8640000000000000 then None else Some (DateMs (truncate ms)))"

text \<open>
  \<^verbatim>\<open>parseTimestamp\<close> (nanoseconds to \<^verbatim>\<open>Date\<close>); \<open>None\<close> is
  \<^verbatim>\<open>undefined\<close>. A string is read with \<^verbatim>\<open>parseInt\<close>; any other value is
  converted to a number by \<^verbatim>\<open>isNaN\<close> and by the division. A conversion that
  throws is caught and gives \<^verbatim>\<open>undefined\<close>, as \<^verbatim>\<open>NaN\<close> does, and the values on
  which the conversion throws are among those that \<open>jsToNumber\<close> maps to \<^verbatim>\<open>NaN\<close>.
\<close>

definition fromNanos :: "jsnum \<Rightarrow> jsdate option" where
  "fromNanos timestampNum =
     (case timestampNum of Fin r \<Rightarrow> newDate (r / 1000000) | _ \<Rightarrow> None)"

fun parseTimestamp :: "jsval \<Rightarrow> jsdate option" where
  "parseTimestamp Undefined = None"
| "parseTimestamp Null = None"
| "parseTimestamp (Str s) = (if s = [] then None else fromNanos (parseInt s))"
| "parseTimestamp v = fromNanos (jsToNumber v)"

section \<open>The client (\<^verbatim>\<open>src/clients/HederaDeFi.ts\<close>)\<close>

subsection \<open>State and environment\<close>

text \<open>An exception thrown by the source: \<^verbatim>\<open>new Error(message)\<close>, or the TypeError
  of a property read on \<^verbatim>\<open>null\<close>.\<close>

datatype error = Error string | TypeError

record CacheEntry =
  data :: jsval
  timestamp :: int

record HederaDeFiConfig =
  endpointOpt :: "string option"
  bonzoApiOpt :: "string option"
  saucerswapApiOpt :: "string option"
  cacheTtlOpt :: "real option"
  timeoutOpt :: "real option"

text \<open>The fields of a client instance. \<open>cacheTtl\<close> is in seconds, the
  time stamps of the cache are in milliseconds.\<close>

record client =
  endpoint :: string
  bonzoApi :: string
  saucerswapApi :: string
  cacheTtl :: real
  timeout :: real
  cache :: "string \<rightharpoonup> CacheEntry"
  callCounts :: "string \<rightharpoonup> nat"

definition orDefault :: "string option \<Rightarrow> string \<Rightarrow> string" where
  "orDefault v d = (case v of None \<Rightarrow> d | Some s \<Rightarrow> if s = [] then d else s)"

definition numOrDefault :: "real option \<Rightarrow> real \<Rightarrow> real" where
  "numOrDefault v d = (case v of None \<Rightarrow> d | Some r \<Rightarrow> if r = 0 then d else r)"

definition newClient :: "HederaDeFiConfig \<Rightarrow> client" where
  "newClient config =
     \<lparr> endpoint = orDefault (endpointOpt config) ''https://mainnet-public.mirrornode.hedera.com/api/v1'',
       bonzoApi = orDefault (bonzoApiOpt config) ''https://mainnet-data.bonzo.finance'',
       saucerswapApi = orDefault (saucerswapApiOpt config) ''https://server.saucerswap.finance/api/public'',
       cacheTtl = numOrDefault (cacheTtlOpt config) 60,
       timeout = numOrDefault (timeoutOpt config) 30000,
       cache = Map.empty,
       callCounts = Map.empty \<rparr>"

definition defaultConfig :: HederaDeFiConfig where
  "defaultConfig =
     \<lparr> endpointOpt = None, bonzoApiOpt = None, saucerswapApiOpt = None,
       cacheTtlOpt = None, timeoutOpt = None \<rparr>"

text \<open>
  The world outside the client: the clock read by \<^verbatim>\<open>Date.now()\<close> (integer
  milliseconds) and, as a record of what happened, the URLs of the GET requests issued so
  far. Time passes only while a request is awaited.
\<close>

record world =
  clock :: int
  sent :: "string list"

text \<open>What \<^verbatim>\<open>await httpClient.get(url, ...)\<close> can do: resolve with a status and
  a body, reject with an axios error (the status of its response and its error code, where
  it has them), or reject with another error.\<close>

datatype http_outcome =
    Response int jsval
  | AxiosError "int option" "string option"
  | OtherError string

text \<open>The network answers a URL, the serialised query parameters and the time of the
  request with an outcome and the milliseconds the answer took.\<close>

type_synonym network = "string \<Rightarrow> string option \<Rightarrow> int \<Rightarrow> http_outcome \<times> nat"

definition httpGet :: "network \<Rightarrow> string \<Rightarrow> string option \<Rightarrow> world \<Rightarrow> http_outcome \<times> world" where
  "httpGet net url params w =
     (case net url params (clock w) of
        (outcome, elapsed) \<Rightarrow>
          (outcome, w\<lparr>clock := clock w + int elapsed, sent := sent w @ [url]\<rparr>))"

subsection \<open>The cache\<close>

text \<open>The block \<^verbatim>\<open>// Check cache\<close> of the three request methods: the stored
  payload when the key has an entry and
  \<^verbatim>\<open>Date.now() - cached.timestamp < this.cacheTtl * 1000\<close>.\<close>

definition cacheGet :: "client \<Rightarrow> int \<Rightarrow> string \<Rightarrow> jsval option" where
  "cacheGet c now cacheKey =
     (case cache c cacheKey of
        None \<Rightarrow> None
      | Some cached \<Rightarrow>
          if real_of_int (now - timestamp cached) < cacheTtl c * 1000 then Some (data cached)
          else None)"

text \<open>The block \<^verbatim>\<open>// Cache result\<close>:
  \<^verbatim>\<open>this.cache.set(cacheKey, {data, timestamp: Date.now()})\<close>.\<close>

definition cachePut :: "client \<Rightarrow> int \<Rightarrow> string \<Rightarrow> jsval \<Rightarrow> client" where
  "cachePut c now cacheKey payload =
     c\<lparr>cache := (cache c)(cacheKey \<mapsto> \<lparr>data = payload, timestamp = now\<rparr>)\<rparr>"

definition clearCache :: "client \<Rightarrow> client" where
  "clearCache c = c\<lparr>cache := Map.empty\<rparr>"

subsection \<open>Call counts\<close>

definition trackCall :: "string \<Rightarrow> client \<Rightarrow> client" where
  "trackCall methodName c =
     c\<lparr>callCounts := (callCounts c)(methodName \<mapsto>
          (case callCounts c methodName of None \<Rightarrow> 0 | Some n \<Rightarrow> n) + 1)\<rparr>"

definition resetCallCounts :: "client \<Rightarrow> client" where
  "resetCallCounts c = c\<lparr>callCounts := Map.empty\<rparr>"

text \<open>The count the client reads for a method, \<^verbatim>\<open>this.callCounts[name] || 0\<close>.\<close>

definition countOf :: "client \<Rightarrow> string \<Rightarrow> nat" where
  "countOf c methodName = (case callCounts c methodName of None \<Rightarrow> 0 | Some n \<Rightarrow> n)"

subsection \<open>The three request methods\<close>

text \<open>The cache key of \<^verbatim>\<open>request\<close>,
  \<^verbatim>\<open>`${path}:${JSON.stringify(params || {})}`\<close>.\<close>

definition cacheKeyOf :: "string \<Rightarrow> string option \<Rightarrow> string" where
  "cacheKeyOf path params = path @ '':'' @ (case params of None \<Rightarrow> ''{}'' | Some p \<Rightarrow> p)"

text \<open>
  Each returns the payload, the client and the world after the call. The warnings
  written to the console are not part of the model. \<open>params\<close> is the serialised
  parameter object, \<open>None\<close> when the argument is left out.
\<close>

definition request ::
  "network \<Rightarrow> string \<Rightarrow> string option \<Rightarrow> client \<times> world \<Rightarrow> (error + jsval) \<times> client \<times> world" where
  "request net path params cw =
     (case cw of (c, w) \<Rightarrow>
        if path = [] then (Inl (Error ''Path cannot be empty''), c, w)
        else
          let cacheKey = cacheKeyOf path params
          in case cacheGet c (clock w) cacheKey of
               Some payload \<Rightarrow> (Inr payload, c, w)
             | None \<Rightarrow>
                 (case httpGet net (endpoint c @ ''/'' @ path) params w of
                    (Response status body, w') \<Rightarrow>
                      if status = 200 \<and> truthy body
                      then (Inr body, cachePut c (clock w') cacheKey body, w')
                      else (Inr (Obj []), c, w')
                  | (AxiosError st code, w') \<Rightarrow> (Inr (Obj []), c, w')
                  | (OtherError msg, w') \<Rightarrow> (Inr (Obj []), c, w')))"

definition saucerswapRequest ::
  "network \<Rightarrow> string \<Rightarrow> client \<times> world \<Rightarrow> jsval \<times> client \<times> world" where
  "saucerswapRequest net path cw =
     (case cw of (c, w) \<Rightarrow>
        let cacheKey = ''saucer:'' @ path
        in case cacheGet c (clock w) cacheKey of
             Some payload \<Rightarrow> (payload, c, w)
           | None \<Rightarrow>
               (case httpGet net (saucerswapApi c @ ''/'' @ path) None w of
                  (Response status body, w') \<Rightarrow>
                    if status = 200 \<and> truthy body
                    then (body, cachePut c (clock w') cacheKey body, w')
                    else (jsOr body (Obj []), c, w')
                | (AxiosError st code, w') \<Rightarrow> (Obj [], c, w')
                | (OtherError msg, w') \<Rightarrow> (Obj [], c, w')))"

definition bonzoRequest ::
  "network \<Rightarrow> string \<Rightarrow> client \<times> world \<Rightarrow> jsval \<times> client \<times> world" where
  "bonzoRequest net path cw =
     (case cw of (c, w) \<Rightarrow>
        let cacheKey = ''bonzo:'' @ path
        in case cacheGet c (clock w) cacheKey of
             Some payload \<Rightarrow> (payload, c, w)
           | None \<Rightarrow>
               (case httpGet net (bonzoApi c @ ''/'' @ path) None w of
                  (Response status body, w') \<Rightarrow>
                    if status = 200 \<and> truthy body
                    then (body, cachePut c (clock w') cacheKey body, w')
                    else (jsOr body (Obj []), c, w')
                | (AxiosError st code, w') \<Rightarrow> (Obj [], c, w')
                | (OtherError msg, w') \<Rightarrow> (Obj [], c, w')))"

subsection \<open>Network methods\<close>

record NetworkSupply =
  totalSupply :: jsnum
  circulatingSupply :: jsnum
  supplyTimestamp :: jsdate

definition getNetworkSupply ::
  "network \<Rightarrow> client \<times> world \<Rightarrow> (error + NetworkSupply) \<times> client \<times> world" where
  "getNetworkSupply net cw =
     (case cw of (c, w) \<Rightarrow>
        case request net ''network/supply'' None (trackCall ''getNetworkSupply'' c, w) of
          (Inl e, c', w') \<Rightarrow> (Inl e, c', w')
        | (Inr d, c', w') \<Rightarrow>
            if truthy d \<and> isObjectType d then
              (Inr \<lparr> totalSupply =
                       jsDiv (parseIntAny (jsOr (field d ''total_supply'') (Str ''0''))) (Fin 100000000),
                     circulatingSupply =
                       jsDiv (parseIntAny (jsOr (field d ''released_supply'') (Str ''0''))) (Fin 100000000),
                     supplyTimestamp =
                       (case parseTimestamp (field d ''timestamp'') of
                          Some t \<Rightarrow> t | None \<Rightarrow> DateMs (clock w')) \<rparr>, c', w')
            else
              (Inr \<lparr> totalSupply = Fin 0, circulatingSupply = Fin 0,
                     supplyTimestamp = DateMs (clock w') \<rparr>, c', w'))"

record NetworkNode =
  nodeId :: jsval
  nodeAccountId :: jsval
  description :: jsval
  stake :: jsval
  stakeNotRewarded :: jsval
  stakeRewarded :: jsval
  stakePercentage :: jsval

definition mapNode :: "jsval \<Rightarrow> NetworkNode" where
  "mapNode node =
     \<lparr> nodeId = jsOr (field node ''node_id'') (Num (Fin 0)),
       nodeAccountId = jsOr (field node ''node_account_id'') (Str []),
       description = field node ''description'',
       stake = field node ''stake'',
       stakeNotRewarded = field node ''stake_not_rewarded'',
       stakeRewarded = field node ''stake_rewarded'',
       stakePercentage = field node ''stake_percentage'' \<rparr>"

definition getNetworkNodes ::
  "network \<Rightarrow> client \<times> world \<Rightarrow> (error + NetworkNode list) \<times> client \<times> world" where
  "getNetworkNodes net cw =
     (case cw of (c, w) \<Rightarrow>
        case request net ''network/nodes'' None (trackCall ''getNetworkNodes'' c, w) of
          (Inl e, c', w') \<Rightarrow> (Inl e, c', w')
        | (Inr d, c', w') \<Rightarrow>
            if truthy d \<and> isArray (field d ''nodes'') then
              (if list_ex nullish (elements (field d ''nodes'')) then (Inl TypeError, c', w')
               else (Inr (map mapNode (elements (field d ''nodes''))), c', w'))
            else (Inr [], c', w'))"

record ExchangeRate =
  centEquiv :: jsval
  hbarEquiv :: jsval
  expirationTime :: jsval

record NetworkExchangeRate =
  currentRate :: ExchangeRate
  nextRate :: "ExchangeRate option"
  rateTimestamp :: jsdate

definition mapRate :: "jsval \<Rightarrow> ExchangeRate" where
  "mapRate r =
     \<lparr> centEquiv = jsOr (field r ''cent_equiv'') (Num (Fin 0)),
       hbarEquiv = jsOr (field r ''hbar_equiv'') (Num (Fin 0)),
       expirationTime = jsOr (field r ''expiration_time'') (Str []) \<rparr>"

definition getNetworkExchangeRate ::
  "network \<Rightarrow> client \<times> world \<Rightarrow> (error + NetworkExchangeRate option) \<times> client \<times> world" where
  "getNetworkExchangeRate net cw =
     (case request net ''network/exchangerate'' None cw of
        (Inl e, c', w') \<Rightarrow> (Inl e, c', w')
      | (Inr d, c', w') \<Rightarrow>
          if truthy d \<and> truthy (field d ''current_rate'') then
            (Inr (Some \<lparr> currentRate = mapRate (field d ''current_rate''),
                         nextRate = (if truthy (field d ''next_rate'')
                                     then Some (mapRate (field d ''next_rate'')) else None),
                         rateTimestamp =
                           (case parseTimestamp (field d ''timestamp'') of
                              Some t \<Rightarrow> t | None \<Rightarrow> DateMs (clock w')) \<rparr>), c', w')
          else (Inr None, c', w'))"

subsection \<open>Account methods\<close>

record AccountBalance =
  balance :: jsnum
  balanceTimestamp :: jsval

record AccountInfo =
  account :: jsval
  accountAlias :: jsval
  accountBalance :: AccountBalance
  createdTimestamp :: jsval
  declineReward :: jsval
  deleted :: jsval
  ethereumNonce :: jsval
  evmAddress :: jsval
  key :: jsval
  maxAutomaticTokenAssociations :: jsval
  memo :: jsval
  pendingReward :: jsval
  receiverSigRequired :: jsval
  stakedAccountId :: jsval
  stakedNodeId :: jsval
  stakePeriodStart :: jsval

definition mapAccount :: "string \<Rightarrow> jsval \<Rightarrow> AccountInfo" where
  "mapAccount accountId d =
     \<lparr> account = jsOr (field d ''account'') (Str accountId),
       accountAlias = field d ''alias'',
       accountBalance =
         \<lparr> balance = parseIntAny (jsOr (field (field d ''balance'') ''balance'') (Str ''0'')),
           balanceTimestamp = jsOr (field (field d ''balance'') ''timestamp'') (Str []) \<rparr>,
       createdTimestamp = jsOr (field d ''created_timestamp'') (Str []),
       declineReward = field d ''decline_reward'',
       deleted = field d ''deleted'',
       ethereumNonce = field d ''ethereum_nonce'',
       evmAddress = field d ''evm_address'',
       key = field d ''key'',
       maxAutomaticTokenAssociations = field d ''max_automatic_token_associations'',
       memo = field d ''memo'',
       pendingReward = field d ''pending_reward'',
       receiverSigRequired = field d ''receiver_sig_required'',
       stakedAccountId = field d ''staked_account_id'',
       stakedNodeId = field d ''staked_node_id'',
       stakePeriodStart = field d ''stake_period_start'' \<rparr>"

text \<open>The validation comes first: a rejected identifier throws before the request,
  the cache and the call counts are touched.\<close>

definition getAccountInfo ::
  "network \<Rightarrow> string \<Rightarrow> client \<times> world \<Rightarrow> (error + AccountInfo option) \<times> client \<times> world" where
  "getAccountInfo net accountId cw =
     (case cw of (c, w) \<Rightarrow>
        if \<not> validateAccountId accountId
        then (Inl (Error (''Invalid account ID format: '' @ accountId)), c, w)
        else
          case request net (''accounts/'' @ accountId) None (c, w) of
            (Inl e, c', w') \<Rightarrow> (Inl e, c', w')
          | (Inr d, c', w') \<Rightarrow>
              if truthy d \<and> isObjectType d then (Inr (Some (mapAccount accountId d)), c', w')
              else (Inr None, c', w'))"

definition getAccountBalance ::
  "network \<Rightarrow> string \<Rightarrow> client \<times> world \<Rightarrow> (error + jsnum) \<times> client \<times> world" where
  "getAccountBalance net accountId cw =
     (case getAccountInfo net accountId cw of
        (Inl e, c', w') \<Rightarrow> (Inl e, c', w')
      | (Inr (Some accountInfo), c', w') \<Rightarrow>
          (Inr (jsDiv (balance (accountBalance accountInfo)) (Fin 100000000)), c', w')
      | (Inr None, c', w') \<Rightarrow> (Inr (Fin 0), c', w'))"

subsection \<open>Bonzo Finance methods\<close>

record BonzoReserve =
  symbol :: jsval
  name :: jsval
  active :: jsval
  supplyApy :: jsval
  variableBorrowApy :: jsval
  stableBorrowApy :: jsval
  utilizationRate :: jsval
  availableLiquidity :: jsval
  totalBorrowableLiquidity :: jsval
  ltv :: jsval
  liquidationThreshold :: jsval
  liquidationBonus :: jsval
  variableBorrowingEnabled :: jsval
  stableBorrowingEnabled :: jsval

text \<open>A time stamp field that is either the value the upstream sent or
  \<^verbatim>\<open>new Date().toISOString()\<close>.\<close>

datatype stamp = Upstream jsval | IsoString jsdate

record BonzoMarketData =
  chainId :: jsval
  networkName :: jsval
  totalMarketSupplied :: jsval
  totalMarketBorrowed :: jsval
  totalMarketLiquidity :: jsval
  totalMarketReserve :: jsval
  reserves :: "BonzoReserve list"
  marketTimestamp :: stamp

definition zeroDisplay :: jsval where
  "zeroDisplay = Obj [(''usdDisplay'', Str ''0'')]"

definition mapReserve :: "jsval \<Rightarrow> BonzoReserve" where
  "mapReserve reserve =
     \<lparr> symbol = jsOr (field reserve ''symbol'') (Str []),
       name = field reserve ''name'',
       active = jsOr (field reserve ''active'') (Bool False),
       supplyApy = jsOr (field reserve ''supply_apy'') (jsOr (field reserve ''supplyApy'') (Num (Fin 0))),
       variableBorrowApy =
         jsOr (field reserve ''variable_borrow_apy'') (jsOr (field reserve ''variableBorrowApy'') (Num (Fin 0))),
       stableBorrowApy = jsOr (field reserve ''stable_borrow_apy'') (field reserve ''stableBorrowApy''),
       utilizationRate =
         jsOr (field reserve ''utilization_rate'') (jsOr (field reserve ''utilizationRate'') (Num (Fin 0))),
       availableLiquidity =
         jsOr (field reserve ''available_liquidity'') (jsOr (field reserve ''availableLiquidity'') zeroDisplay),
       totalBorrowableLiquidity =
         jsOr (field reserve ''total_borrowable_liquidity'') (field reserve ''totalBorrowableLiquidity''),
       ltv = jsOr (field reserve ''ltv'') (Num (Fin 0)),
       liquidationThreshold =
         jsOr (field reserve ''liquidation_threshold'') (jsOr (field reserve ''liquidationThreshold'') (Num (Fin 0))),
       liquidationBonus = jsOr (field reserve ''liquidation_bonus'') (field reserve ''liquidationBonus''),
       variableBorrowingEnabled =
         jsOr (field reserve ''variable_borrowing_enabled'') (field reserve ''variableBorrowingEnabled''),
       stableBorrowingEnabled =
         jsOr (field reserve ''stable_borrowing_enabled'') (field reserve ''stableBorrowingEnabled'') \<rparr>"

definition mapMarkets :: "jsval \<Rightarrow> int \<Rightarrow> BonzoMarketData" where
  "mapMarkets markets now =
     \<lparr> chainId = jsOr (field markets ''chain_id'') (jsOr (field markets ''chainId'') (Str [])),
       networkName = jsOr (field markets ''network_name'') (jsOr (field markets ''networkName'') (Str [])),
       totalMarketSupplied =
         jsOr (field markets ''total_market_supplied'') (jsOr (field markets ''totalMarketSupplied'') zeroDisplay),
       totalMarketBorrowed =
         jsOr (field markets ''total_market_borrowed'') (jsOr (field markets ''totalMarketBorrowed'') zeroDisplay),
       totalMarketLiquidity =
         jsOr (field markets ''total_market_liquidity'') (jsOr (field markets ''totalMarketLiquidity'') zeroDisplay),
       totalMarketReserve =
         jsOr (field markets ''total_market_reserve'') (jsOr (field markets ''totalMarketReserve'') zeroDisplay),
       reserves =
         (if isArray (field markets ''reserves'')
          then map mapReserve (elements (field markets ''reserves'')) else []),
       marketTimestamp =
         (if truthy (field markets ''timestamp'') then Upstream (field markets ''timestamp'')
          else IsoString (DateMs now)) \<rparr>"

text \<open>\<open>Inr None\<close> is the result \<^verbatim>\<open>undefined\<close>. The log line prints
  \<^verbatim>\<open>markets.total_market_supplied?.usd_display || '$0'\<close> and throws when that value
  cannot be printed; a \<^verbatim>\<open>null\<close> among the reserves makes the mapping throw.\<close>

definition getBonzoMarkets ::
  "network \<Rightarrow> client \<times> world \<Rightarrow> (error + BonzoMarketData option) \<times> client \<times> world" where
  "getBonzoMarkets net cw =
     (case cw of (c, w) \<Rightarrow>
        case bonzoRequest net ''Market'' (trackCall ''getBonzoMarkets'' c, w) of
          (markets, c', w') \<Rightarrow>
            if truthy markets \<and> isObjectType markets then
              (if toStringThrows
                    (jsOr (field (field markets ''total_market_supplied'') ''usd_display'') (Str ''$0''))
                  \<or> list_ex nullish (elements (field markets ''reserves''))
               then (Inl TypeError, c', w')
               else (Inr (Some (mapMarkets markets (clock w'))), c', w'))
            else (Inr None, c', w'))"

text \<open>\<^verbatim>\<open>cachedData || await this.getBonzoMarkets()\<close>: a market record that the
  caller passes is an object, hence truthy, and is used as it is.\<close>

definition bonzoDataOr ::
  "network \<Rightarrow> BonzoMarketData option \<Rightarrow> client \<times> world
     \<Rightarrow> (error + BonzoMarketData option) \<times> client \<times> world" where
  "bonzoDataOr net cachedData cw =
     (case cachedData of
        Some d \<Rightarrow> (case cw of (c, w) \<Rightarrow> (Inr (Some d), c, w))
      | None \<Rightarrow> getBonzoMarkets net cw)"

definition getBonzoReserves ::
  "network \<Rightarrow> BonzoMarketData option \<Rightarrow> client \<times> world
     \<Rightarrow> (error + BonzoReserve list) \<times> client \<times> world" where
  "getBonzoReserves net cachedData cw =
     (case bonzoDataOr net cachedData cw of
        (Inl e, c', w') \<Rightarrow> (Inl e, c', w')
      | (Inr (Some d), c', w') \<Rightarrow> (Inr (reserves d), c', w')
      | (Inr None, c', w') \<Rightarrow> (Inr [], c', w'))"

text \<open>The object returned by \<^verbatim>\<open>getBonzoTotalMarkets\<close>; \<open>None\<close> is the empty
  object \<^verbatim>\<open>{}\<close>.\<close>

record BonzoTotals =
  totalsChainId :: jsval
  totalsNetworkName :: jsval
  totalsSupplied :: jsval
  totalsBorrowed :: jsval
  totalsLiquidity :: jsval
  totalsReserve :: jsval
  totalsTimestamp :: stamp
  totalReserves :: nat

definition totalsOf :: "BonzoMarketData \<Rightarrow> BonzoTotals" where
  "totalsOf d =
     \<lparr> totalsChainId = chainId d,
       totalsNetworkName = networkName d,
       totalsSupplied = totalMarketSupplied d,
       totalsBorrowed = totalMarketBorrowed d,
       totalsLiquidity = totalMarketLiquidity d,
       totalsReserve = totalMarketReserve d,
       totalsTimestamp = marketTimestamp d,
       totalReserves = length (reserves d) \<rparr>"

definition getBonzoTotalMarkets ::
  "network \<Rightarrow> BonzoMarketData option \<Rightarrow> client \<times> world
     \<Rightarrow> (error + BonzoTotals option) \<times> client \<times> world" where
  "getBonzoTotalMarkets net cachedData cw =
     (case bonzoDataOr net cachedData cw of
        (Inl e, c', w') \<Rightarrow> (Inl e, c', w')
      | (Inr (Some d), c', w') \<Rightarrow> (Inr (Some (totalsOf d)), c', w')
      | (Inr None, c', w') \<Rightarrow> (Inr None, c', w'))"

subsection \<open>SaucerSwap methods\<close>

definition getSaucerSwapPools ::
  "network \<Rightarrow> client \<times> world \<Rightarrow> jsval list \<times> client \<times> world" where
  "getSaucerSwapPools net cw =
     (case cw of (c, w) \<Rightarrow>
        case saucerswapRequest net ''pools'' (trackCall ''getSaucerSwapPools'' c, w) of
          (pools, c', w') \<Rightarrow> (if isArray pools then elements pools else [], c', w'))"

definition getSaucerSwapTokens ::
  "network \<Rightarrow> client \<times> world \<Rightarrow> jsval list \<times> client \<times> world" where
  "getSaucerSwapTokens net cw =
     (case cw of (c, w) \<Rightarrow>
        case saucerswapRequest net ''tokens'' (trackCall ''getSaucerSwapTokens'' c, w) of
          (tokens, c', w') \<Rightarrow> (if isArray tokens then elements tokens else [], c', w'))"

definition defaultStats :: jsval where
  "defaultStats =
     Obj [(''tvlUsd'', Num (Fin 0)), (''volumeTotalUsd'', Num (Fin 0)),
          (''swapTotal'', Num (Fin 0)), (''circulatingSauce'', Num (Fin 0))]"

text \<open>The log line calls \<^verbatim>\<open>tvl.toLocaleString()\<close> on
  \<^verbatim>\<open>stats.tvlUsd || 0\<close> and throws when that call does.\<close>

definition getSaucerSwapStats ::
  "network \<Rightarrow> client \<times> world \<Rightarrow> (error + jsval) \<times> client \<times> world" where
  "getSaucerSwapStats net cw =
     (case cw of (c, w) \<Rightarrow>
        case saucerswapRequest net ''stats'' (trackCall ''getSaucerSwapStats'' c, w) of
          (stats, c', w') \<Rightarrow>
            if truthy stats \<and> isObjectType stats then
              (if localeStringThrows (jsOr (field stats ''tvlUsd'') (Num (Fin 0)))
               then (Inl TypeError, c', w')
               else (Inr stats, c', w'))
            else (Inr defaultStats, c', w'))"

subsection \<open>Cross-protocol methods\<close>

text \<open>
  \<^verbatim>\<open>parseUsdValue\<close> as \<^verbatim>\<open>getCrossProtocolLiquiditySummary\<close> calls it, on a value
  of type \<^verbatim>\<open>any\<close>: a falsy value returns 0 at the first test, and a truthy value
  that is not a string has no method \<^verbatim>\<open>replace\<close>, so the call throws inside the
  \<^verbatim>\<open>try\<close> block and 0 is returned.
\<close>

fun parseUsdValueAny :: "jsval \<Rightarrow> jsnum" where
  "parseUsdValueAny (Str s) = parseUsdValue s"
| "parseUsdValueAny v = Fin 0"

text \<open>The fields \<^verbatim>\<open>totalLiquidityUsd\<close> and \<^verbatim>\<open>saucerswap.tvlUsd\<close> hold whatever
  the operators produce from the payload: numbers, or strings when \<^verbatim>\<open>tvlUsd\<close> is not
  a number.\<close>

record LiquiditySummary =
  totalLiquidityUsd :: jsval
  saucerTvlUsd :: jsval
  poolCount :: nat
  activePools :: nat
  saucerProtocolType :: string
  bonzoTvlUsd :: jsnum
  reserveCount :: nat
  activeReserves :: nat
  bonzoProtocolType :: string
  dexPercentage :: jsnum
  lendingPercentage :: jsnum
  summaryTimestamp :: jsdate
  totalTime :: int
  saucerswapTime :: int
  bonzoTime :: int

text \<open>\<^verbatim>\<open>parseInt(p.liquidity || '0') > 0\<close>, where \<^verbatim>\<open>parseInt\<close> first prints its
  argument.\<close>

definition liquidityOf :: "jsval \<Rightarrow> jsval" where
  "liquidityOf p = jsOr (field p ''liquidity'') (Str ''0'')"

definition isActivePool :: "(real \<Rightarrow> string) \<Rightarrow> jsval \<Rightarrow> bool" where
  "isActivePool printFinite p = jsGt (parseInt (jsToString printFinite (liquidityOf p))) (Fin 0)"

text \<open>
  The record built from the three fetched values and the clock readings.
  \<^verbatim>\<open>saucerTvl\<close> is \<^verbatim>\<open>saucerStats.tvlUsd || 0\<close> as it comes, the total is
  \<^verbatim>\<open>saucerTvl + bonzoTvl\<close>, and the guard \<^verbatim>\<open>> 0\<close> and the two divisions convert
  their operands to numbers.
\<close>

definition summarise ::
  "(real \<Rightarrow> string) \<Rightarrow> jsval \<Rightarrow> jsval list \<Rightarrow> BonzoMarketData option
     \<Rightarrow> int \<Rightarrow> int \<Rightarrow> int \<Rightarrow> int \<Rightarrow> LiquiditySummary" where
  "summarise printFinite saucerStats saucerPools bonzoData now elapsed saucerElapsed bonzoElapsed =
     (let saucerTvl = jsOr (field saucerStats ''tvlUsd'') (Num (Fin 0));
          bonzoTvlStr =
            jsOr (case bonzoData of None \<Rightarrow> Undefined
                  | Some d \<Rightarrow> field (totalMarketSupplied d) ''usdDisplay'') (Str ''0'');
          bonzoTvl = parseUsdValueAny bonzoTvlStr;
          totalLiquidity = jsPlus printFinite saucerTvl bonzoTvl
      in \<lparr> totalLiquidityUsd = totalLiquidity,
           saucerTvlUsd = saucerTvl,
           poolCount = length saucerPools,
           activePools = length (filter (isActivePool printFinite) saucerPools),
           saucerProtocolType = ''DEX'',
           bonzoTvlUsd = bonzoTvl,
           reserveCount = (case bonzoData of None \<Rightarrow> 0 | Some d \<Rightarrow> length (reserves d)),
           activeReserves =
             (case bonzoData of None \<Rightarrow> 0
              | Some d \<Rightarrow> length (filter (\<lambda>r. truthy (active r)) (reserves d))),
           bonzoProtocolType = ''Lending'',
           dexPercentage =
             (if jsGt (jsToNumber totalLiquidity) (Fin 0)
              then jsMul (jsDiv (jsToNumber saucerTvl) (jsToNumber totalLiquidity)) (Fin 100)
              else Fin 0),
           lendingPercentage =
             (if jsGt (jsToNumber totalLiquidity) (Fin 0)
              then jsMul (jsDiv bonzoTvl (jsToNumber totalLiquidity)) (Fin 100)
              else Fin 0),
           summaryTimestamp = DateMs now,
           totalTime = elapsed,
           saucerswapTime = saucerElapsed,
           bonzoTime = bonzoElapsed \<rparr>)"

text \<open>
  The record is built after the three fetches. Building it throws a TypeError when
  \<^verbatim>\<open>saucerTvl\<close> cannot be converted for the operator \<^verbatim>\<open>+\<close>, when a pool is
  \<^verbatim>\<open>null\<close>, or when the liquidity of a pool cannot be printed for
  \<^verbatim>\<open>parseInt\<close>.
\<close>

definition summaryThrows :: "jsval \<Rightarrow> jsval list \<Rightarrow> bool" where
  "summaryThrows saucerStats saucerPools =
     (toStringThrows (jsOr (field saucerStats ''tvlUsd'') (Num (Fin 0)))
      \<or> list_ex (\<lambda>p. nullish p \<or> toStringThrows (liquidityOf p)) saucerPools)"

definition getCrossProtocolLiquiditySummary ::
  "(real \<Rightarrow> string) \<Rightarrow> network \<Rightarrow> client \<times> world
     \<Rightarrow> (error + LiquiditySummary) \<times> client \<times> world" where
  "getCrossProtocolLiquiditySummary printFinite net cw =
     (case cw of (c, w) \<Rightarrow>
        case getSaucerSwapStats net (c, w) of
          (Inl e, c1, w1) \<Rightarrow> (Inl e, c1, w1)
        | (Inr saucerStats, c1, w1) \<Rightarrow>
            case getSaucerSwapPools net (c1, w1) of
              (saucerPools, c2, w2) \<Rightarrow>
                case getBonzoMarkets net (c2, w2) of
                  (Inl e, c3, w3) \<Rightarrow> (Inl e, c3, w3)
                | (Inr bonzoData, c3, w3) \<Rightarrow>
                    if summaryThrows saucerStats saucerPools then (Inl TypeError, c3, w3)
                    else
                      (Inr (summarise printFinite saucerStats saucerPools bonzoData (clock w3)
                              (clock w3 - clock w) (clock w2 - clock w) (clock w3 - clock w2)),
                       c3, w3))"

subsection \<open>Sequences of calls\<close>

text \<open>The public methods of the model, as the steps of a run of a client: each step
  keeps the client and the world and drops the value returned. A call of
  \<^verbatim>\<open>getCrossProtocolLiquiditySummary\<close> carries the printing of numbers that its
  model takes as a parameter.\<close>

datatype invocation =
    GetNetworkSupply
  | GetNetworkNodes
  | GetNetworkExchangeRate
  | GetAccountInfo string
  | GetBonzoMarkets
  | GetSaucerSwapPools
  | GetSaucerSwapTokens
  | GetSaucerSwapStats
  | GetCrossProtocolLiquiditySummary "real \<Rightarrow> string"

fun methodName :: "invocation \<Rightarrow> string" where
  "methodName GetNetworkSupply = ''getNetworkSupply''"
| "methodName GetNetworkNodes = ''getNetworkNodes''"
| "methodName GetNetworkExchangeRate = ''getNetworkExchangeRate''"
| "methodName (GetAccountInfo a) = ''getAccountInfo''"
| "methodName GetBonzoMarkets = ''getBonzoMarkets''"
| "methodName GetSaucerSwapPools = ''getSaucerSwapPools''"
| "methodName GetSaucerSwapTokens = ''getSaucerSwapTokens''"
| "methodName GetSaucerSwapStats = ''getSaucerSwapStats''"
| "methodName (GetCrossProtocolLiquiditySummary p) = ''getCrossProtocolLiquiditySummary''"

fun invoke :: "network \<Rightarrow> invocation \<Rightarrow> client \<times> world \<Rightarrow> client \<times> world" where
  "invoke net GetNetworkSupply cw = snd (getNetworkSupply net cw)"
| "invoke net GetNetworkNodes cw = snd (getNetworkNodes net cw)"
| "invoke net GetNetworkExchangeRate cw = snd (getNetworkExchangeRate net cw)"
| "invoke net (GetAccountInfo a) cw = snd (getAccountInfo net a cw)"
| "invoke net GetBonzoMarkets cw = snd (getBonzoMarkets net cw)"
| "invoke net GetSaucerSwapPools cw = snd (getSaucerSwapPools net cw)"
| "invoke net GetSaucerSwapTokens cw = snd (getSaucerSwapTokens net cw)"
| "invoke net GetSaucerSwapStats cw = snd (getSaucerSwapStats net cw)"
| "invoke net (GetCrossProtocolLiquiditySummary p) cw = snd (getCrossProtocolLiquiditySummary p net cw)"

text \<open>A run is a list of calls, each with the milliseconds the caller waits before
  making it: the clock advances by that time, then the call is made.\<close>

fun invokeAll :: "network \<Rightarrow> (nat \<times> invocation) list \<Rightarrow> client \<times> world \<Rightarrow> client \<times> world" where
  "invokeAll net [] cw = cw"
| "invokeAll net ((gap, m) # steps) cw =
     invokeAll net steps (invoke net m (fst cw, (snd cw)\<lparr>clock := clock (snd cw) + int gap\<rparr>))"

text \<open>The same call made once for each element of a list of waiting times.\<close>

definition repeated :: "invocation \<Rightarrow> nat list \<Rightarrow> (nat \<times> invocation) list" where
  "repeated m gaps = map (\<lambda>gap. (gap, m)) gaps"


text \<open>The methods whose body starts with \<^verbatim>\<open>this.trackCall\<close>.\<close>

definition trackedMethods :: "invocation list" where
  "trackedMethods =
     [GetNetworkSupply, GetNetworkNodes, GetBonzoMarkets,
      GetSaucerSwapPools, GetSaucerSwapTokens, GetSaucerSwapStats]"

subsection \<open>Two example networks\<close>

text \<open>A network on which every request times out after five seconds.\<close>

definition deadNet :: network where
  "deadNet url params t = (AxiosError None (Some ''ECONNABORTED''), 5000)"

text \<open>A network that answers the supply, statistics, pool and market endpoints of the
  default configuration within 40 milliseconds and refuses every other connection.\<close>

definition liveNet :: network where
  "liveNet url params t =
     (if url = ''https://mainnet-public.mirrornode.hedera.com/api/v1/network/supply''
      then (Response 200 (Obj [(''total_supply'', Str ''5000000000000000''),
                               (''released_supply'', Str ''4200000000000000'')]), 40)
      else if url = ''https://server.saucerswap.finance/api/public/stats''
      then (Response 200 (Obj [(''tvlUsd'', Num (Fin 300))]), 40)
      else if url = ''https://server.saucerswap.finance/api/public/pools''
      then (Response 200 (Arr [Obj [(''liquidity'', Str ''12'')], Obj []]), 40)
      else if url = ''https://mainnet-data.bonzo.finance/Market''
      then (Response 200 (Obj [(''totalMarketSupplied'', Obj [(''usdDisplay'', Str ''$100.00'')])]), 40)
      else (AxiosError None None, 40))"


definition startWorld :: world where
  "startWorld = \<lparr> clock = 1700000000000, sent = [] \<rparr>"





section \<open>Properties\<close>

text \<open>
  Claim C9. \<^verbatim>\<open>clearCache\<close> empties the request cache and leaves every call count as
  it was; \<^verbatim>\<open>resetCallCounts\<close> removes all call counts and leaves every cache entry
  as it was.
\<close>

theorem clear_and_reset_frames:
  "cache (clearCache c) = Map.empty \<and> callCounts (clearCache c) = callCounts c
   \<and> callCounts (resetCallCounts c) = Map.empty \<and> cache (resetCallCounts c) = cache c"
  by (simp add: clearCache_def resetCallCounts_def)

text \<open>
  Claim C10. Called with a market record, \<^verbatim>\<open>getBonzoReserves\<close> and
  \<^verbatim>\<open>getBonzoTotalMarkets\<close> compute their result from that record alone: the client
  (cache and call counts) and the world (clock and requests issued) come back unchanged.
\<close>

theorem bonzo_cached_data_frame:
  "getBonzoReserves net (Some d) (c, w) = (Inr (reserves d), c, w)
   \<and> getBonzoTotalMarkets net (Some d) (c, w) = (Inr (Some (totalsOf d)), c, w)"
  by (simp add: getBonzoReserves_def getBonzoTotalMarkets_def bonzoDataOr_def)

text \<open>
  Claim C7. For an account identifier that the validation rejects, \<^verbatim>\<open>getAccountInfo\<close>
  throws the validation error and nothing else happens: no request is issued, the clock
  has not moved, and the cache and the call counts are unchanged.
\<close>

theorem getAccountInfo_rejects_before_network:
  "\<not> validateAccountId accountId \<Longrightarrow>
     getAccountInfo net accountId (c, w)
       = (Inl (Error (''Invalid account ID format: '' @ accountId)), c, w)"
  by (simp add: getAccountInfo_def)

theorem getAccountInfo_rejects_before_network_witness:
  "\<not> validateAccountId ''not-an-id''
   \<and> getAccountInfo liveNet ''not-an-id'' (newClient defaultConfig, startWorld)
       = (Inl (Error ''Invalid account ID format: not-an-id''), newClient defaultConfig, startWorld)"
  using getAccountInfo_rejects_before_network
          [of "''not-an-id''" liveNet "newClient defaultConfig" startWorld]
  by (simp add: validateAccountId_def)

text \<open>
  Claim C6. \<^verbatim>\<open>parseUsdValue\<close> on the strings of the scenario, and on a string that
  holds no decimal number once \<^verbatim>\<open>$\<close> and \<^verbatim>\<open>,\<close> are removed: the first three
  give 1234567.89, 0 and 0, the last gives \<^verbatim>\<open>NaN\<close> and not 0.
\<close>

theorem parseUsdValue_scenarios:
  "parseUsdValue ''$1,234,567.89'' = Fin 1234567.89
   \<and> parseUsdValue [] = Fin 0
   \<and> parseUsdValue ''0'' = Fin 0
   \<and> parseUsdValue ''N/A'' = NaN"
  by (simp add: parseUsdValue_def parseFloat_def decimalLiteral_def isWhiteSpace_def isDigit_def
        digitValue_def digitsValue_def fromReal_def overflowBound_def)

subsection \<open>Account identifiers\<close>






subsection \<open>Call counts\<close>

lemma request_callCounts:
  "callCounts (fst (snd (request net path params (c, w)))) = callCounts c"
  by (auto simp: request_def cachePut_def Let_def split: option.splits prod.splits http_outcome.splits)

lemma saucerswapRequest_callCounts:
  "callCounts (fst (snd (saucerswapRequest net path (c, w)))) = callCounts c"
  by (auto simp: saucerswapRequest_def cachePut_def Let_def split: option.splits prod.splits http_outcome.splits)

lemma bonzoRequest_callCounts:
  "callCounts (fst (snd (bonzoRequest net path (c, w)))) = callCounts c"
  by (auto simp: bonzoRequest_def cachePut_def Let_def split: option.splits prod.splits http_outcome.splits)

lemma countOf_trackCall:
  "callCounts c' = callCounts (trackCall n c) \<Longrightarrow> countOf c' n = countOf c n + 1"
  by (simp add: countOf_def trackCall_def)

lemma getNetworkSupply_client:
  "fst (snd (getNetworkSupply net (c, w)))
     = fst (snd (request net ''network/supply'' None (trackCall ''getNetworkSupply'' c, w)))"
  by (simp add: getNetworkSupply_def split: prod.splits sum.splits)

lemma getNetworkNodes_client:
  "fst (snd (getNetworkNodes net (c, w)))
     = fst (snd (request net ''network/nodes'' None (trackCall ''getNetworkNodes'' c, w)))"
  by (simp add: getNetworkNodes_def split: prod.splits sum.splits)

lemma getBonzoMarkets_client:
  "fst (snd (getBonzoMarkets net (c, w)))
     = fst (snd (bonzoRequest net ''Market'' (trackCall ''getBonzoMarkets'' c, w)))"
  by (simp add: getBonzoMarkets_def split: prod.splits sum.splits)

lemma getSaucerSwapPools_client:
  "fst (snd (getSaucerSwapPools net (c, w)))
     = fst (snd (saucerswapRequest net ''pools'' (trackCall ''getSaucerSwapPools'' c, w)))"
  by (simp add: getSaucerSwapPools_def split: prod.splits sum.splits)

lemma getSaucerSwapTokens_client:
  "fst (snd (getSaucerSwapTokens net (c, w)))
     = fst (snd (saucerswapRequest net ''tokens'' (trackCall ''getSaucerSwapTokens'' c, w)))"
  by (simp add: getSaucerSwapTokens_def split: prod.splits sum.splits)

lemma getSaucerSwapStats_client:
  "fst (snd (getSaucerSwapStats net (c, w)))
     = fst (snd (saucerswapRequest net ''stats'' (trackCall ''getSaucerSwapStats'' c, w)))"
  by (simp add: getSaucerSwapStats_def split: prod.splits sum.splits)

lemma invoke_tracked:
  assumes "m \<in> set trackedMethods"
  shows "countOf (fst (invoke net m (c, w))) (methodName m) = countOf c (methodName m) + 1"
proof -
  from assms consider "m = GetNetworkSupply" | "m = GetNetworkNodes" | "m = GetBonzoMarkets"
    | "m = GetSaucerSwapPools" | "m = GetSaucerSwapTokens" | "m = GetSaucerSwapStats"
    by (auto simp: trackedMethods_def)
  then show ?thesis
  proof cases
    case 1
    then show ?thesis
      by (simp add: getNetworkSupply_client request_callCounts countOf_trackCall)
  next
    case 2
    then show ?thesis
      by (simp add: getNetworkNodes_client request_callCounts countOf_trackCall)
  next
    case 3
    then show ?thesis
      by (simp add: getBonzoMarkets_client bonzoRequest_callCounts countOf_trackCall)
  next
    case 4
    then show ?thesis
      by (simp add: getSaucerSwapPools_client saucerswapRequest_callCounts countOf_trackCall)
  next
    case 5
    then show ?thesis
      by (simp add: getSaucerSwapTokens_client saucerswapRequest_callCounts countOf_trackCall)
  next
    case 6
    then show ?thesis
      by (simp add: getSaucerSwapStats_client saucerswapRequest_callCounts countOf_trackCall)
  qed
qed

lemma invokeAll_tracked:
  assumes "m \<in> set trackedMethods"
  shows "countOf (fst (invokeAll net (repeated m gaps) cw)) (methodName m)
           = countOf (fst cw) (methodName m) + length gaps"
proof (induction gaps arbitrary: cw)
  case Nil
  show ?case by (simp add: repeated_def)
next
  case (Cons gap gaps)
  have "countOf (fst (invokeAll net (repeated m (gap # gaps)) cw)) (methodName m)
          = countOf (fst (invoke net m (fst cw, (snd cw)\<lparr>clock := clock (snd cw) + int gap\<rparr>))) (methodName m)
            + length gaps"
    using Cons.IH by (simp add: repeated_def)
  also have "\<dots> = countOf (fst cw) (methodName m) + 1 + length gaps"
    using invoke_tracked [OF assms] by simp
  finally show ?case by simp
qed

text \<open>
  Claim C5, amended. For each of the six methods that record their calls
  (\<^verbatim>\<open>getNetworkSupply\<close>, \<^verbatim>\<open>getNetworkNodes\<close>, \<^verbatim>\<open>getBonzoMarkets\<close>,
  \<^verbatim>\<open>getSaucerSwapPools\<close>, \<^verbatim>\<open>getSaucerSwapTokens\<close>, \<^verbatim>\<open>getSaucerSwapStats\<close>),
  invoking it n times in a row raises the count under its name by exactly n, whatever the
  network answers and however long the caller waits between the calls, hence whether the
  calls hit the cache or not.
\<close>

theorem call_counts_of_tracked_methods:
  "m \<in> set trackedMethods \<Longrightarrow>
     countOf (fst (invokeAll net (repeated m gaps) (c, w))) (methodName m)
       = countOf c (methodName m) + length gaps"
  using invokeAll_tracked [of m net gaps "(c, w)"] by simp

theorem call_counts_of_tracked_methods_witness:
  "GetNetworkSupply \<in> set trackedMethods
   \<and> countOf (fst (invokeAll liveNet (repeated GetNetworkSupply [0, 10, 70000])
                (newClient defaultConfig, startWorld))) ''getNetworkSupply'' = 3"
  using call_counts_of_tracked_methods
          [of GetNetworkSupply liveNet "[0, 10, 70000]" "newClient defaultConfig" startWorld]
  by (simp add: trackedMethods_def countOf_def newClient_def)

text \<open>
  Claim C5, as stated, fails: \<^verbatim>\<open>getNetworkExchangeRate\<close> does not call
  \<^verbatim>\<open>trackCall\<close>, and after three invocations on a new client the count under its
  name is still 0.
\<close>

theorem getNetworkExchangeRate_not_counted:
  "countOf (fst (invokeAll liveNet (repeated GetNetworkExchangeRate [0, 10, 70000])
                (newClient defaultConfig, startWorld))) ''getNetworkExchangeRate'' = 0"
  by (simp add: repeated_def getNetworkExchangeRate_def request_def cacheGet_def cachePut_def
        cacheKeyOf_def httpGet_def liveNet_def newClient_def defaultConfig_def startWorld_def
        orDefault_def numOrDefault_def countOf_def Let_def)


subsection \<open>Failing requests\<close>

lemma cache_trackCall [simp]: "cache (trackCall n c) = cache c"
  by (simp add: trackCall_def)

lemma cacheGet_trackCall [simp]: "cacheGet (trackCall n c) now k = cacheGet c now k"
  by (simp add: cacheGet_def trackCall_def split: option.splits)















subsection \<open>Freshness of cache entries\<close>

lemma cacheGet_cachePut:
  "cacheGet (cachePut c fetchedAt k payload) now k
     = (if real_of_int (now - fetchedAt) < cacheTtl c * 1000 then Some payload else None)"
  by (simp add: cacheGet_def cachePut_def)

lemma request_hit:
  assumes "path \<noteq> []" and "cacheGet c (clock w) (cacheKeyOf path params) = Some payload"
  shows "request net path params (c, w) = (Inr payload, c, w)"
  using assms by (simp add: request_def)

lemma request_miss_sent:
  assumes "path \<noteq> []" and "cacheGet c (clock w) (cacheKeyOf path params) = None"
  shows "sent (snd (snd (request net path params (c, w)))) = sent w @ [endpoint c @ ''/'' @ path]"
  using assms
  by (auto simp: request_def httpGet_def Let_def split: prod.splits http_outcome.splits)

lemma request_store:
  assumes "path \<noteq> []" and "cacheGet c (clock w) (cacheKeyOf path params) = None"
    and "net (endpoint c @ ''/'' @ path) params (clock w) = (Response 200 body, elapsed)"
    and "truthy body"
  shows "request net path params (c, w)
           = (Inr body, cachePut c (clock w + int elapsed) (cacheKeyOf path params) body,
              w\<lparr>clock := clock w + int elapsed, sent := sent w @ [endpoint c @ ''/'' @ path]\<rparr>)"
  using assms by (simp add: request_def httpGet_def Let_def)

lemma saucerswapRequest_store:
  assumes "cacheGet c (clock w) (''saucer:'' @ path) = None"
    and "net (saucerswapApi c @ ''/'' @ path) None (clock w) = (Response 200 body, elapsed)"
    and "truthy body"
  shows "saucerswapRequest net path (c, w)
           = (body, cachePut c (clock w + int elapsed) (''saucer:'' @ path) body,
              w\<lparr>clock := clock w + int elapsed, sent := sent w @ [saucerswapApi c @ ''/'' @ path]\<rparr>)"
  using assms by (simp add: saucerswapRequest_def httpGet_def Let_def)

lemma bonzoRequest_store:
  assumes "cacheGet c (clock w) (''bonzo:'' @ path) = None"
    and "net (bonzoApi c @ ''/'' @ path) None (clock w) = (Response 200 body, elapsed)"
    and "truthy body"
  shows "bonzoRequest net path (c, w)
           = (body, cachePut c (clock w + int elapsed) (''bonzo:'' @ path) body,
              w\<lparr>clock := clock w + int elapsed, sent := sent w @ [bonzoApi c @ ''/'' @ path]\<rparr>)"
  using assms by (simp add: bonzoRequest_def httpGet_def Let_def)

text \<open>
  Claim C1. \<^verbatim>\<open>request\<close> stores the body of a successful fetch under the key of the
  request, with the time of the clock after the answer, and so do
  \<^verbatim>\<open>saucerswapRequest\<close> and \<^verbatim>\<open>bonzoRequest\<close> under their keys. For every cache
  key, a lookup after a store returns the stored payload as long as
  \<open>now - fetchedAt < ttl\<close> (\<open>ttl\<close> being \<^verbatim>\<open>cacheTtl * 1000\<close> milliseconds), and
  a request for that key then returns it without touching the network or the client; once
  \<open>now - fetchedAt \<ge> ttl\<close> the lookup finds nothing although the entry is still in the
  map, and the request goes to the network again. In particular a lookup at
  \<open>fetchedAt + ttl - \<epsilon>\<close> is a hit and a lookup at \<open>fetchedAt + ttl + \<epsilon>\<close> is a
  miss, for every \<open>\<epsilon> > 0\<close>.
\<close>

theorem cache_ttl_boundary:
  "(real_of_int (now - fetchedAt) < cacheTtl c * 1000 \<longrightarrow>
      cacheGet (cachePut c fetchedAt k payload) now k = Some payload
      \<and> (path \<noteq> [] \<and> k = cacheKeyOf path params \<and> clock w = now \<longrightarrow>
           request net path params (cachePut c fetchedAt k payload, w)
             = (Inr payload, cachePut c fetchedAt k payload, w)))
   \<and> (real_of_int (now - fetchedAt) \<ge> cacheTtl c * 1000 \<longrightarrow>
      cacheGet (cachePut c fetchedAt k payload) now k = None
      \<and> cache (cachePut c fetchedAt k payload) k = Some \<lparr>data = payload, timestamp = fetchedAt\<rparr>
      \<and> (path \<noteq> [] \<and> k = cacheKeyOf path params \<and> clock w = now \<longrightarrow>
           sent (snd (snd (request net path params (cachePut c fetchedAt k payload, w))))
             = sent w @ [endpoint c @ ''/'' @ path]))
   \<and> (0 < \<epsilon> \<and> real_of_int now = real_of_int fetchedAt + cacheTtl c * 1000 - \<epsilon> \<longrightarrow>
      cacheGet (cachePut c fetchedAt k payload) now k = Some payload)
   \<and> (0 < \<epsilon> \<and> real_of_int now = real_of_int fetchedAt + cacheTtl c * 1000 + \<epsilon> \<longrightarrow>
      cacheGet (cachePut c fetchedAt k payload) now k = None)
   \<and> (path \<noteq> [] \<and> cacheGet c (clock w) (cacheKeyOf path params) = None
        \<and> net (endpoint c @ ''/'' @ path) params (clock w) = (Response 200 body, elapsed)
        \<and> truthy body \<longrightarrow>
      request net path params (c, w)
        = (Inr body, cachePut c (clock w + int elapsed) (cacheKeyOf path params) body,
           w\<lparr>clock := clock w + int elapsed, sent := sent w @ [endpoint c @ ''/'' @ path]\<rparr>)
      \<and> (real_of_int (later - (clock w + int elapsed)) < cacheTtl c * 1000 \<longrightarrow>
           request otherNet path params
             (cachePut c (clock w + int elapsed) (cacheKeyOf path params) body,
              \<lparr>clock = later, sent = sent w @ [endpoint c @ ''/'' @ path]\<rparr>)
             = (Inr body, cachePut c (clock w + int elapsed) (cacheKeyOf path params) body,
                \<lparr>clock = later, sent = sent w @ [endpoint c @ ''/'' @ path]\<rparr>))
      \<and> (real_of_int (later - (clock w + int elapsed)) \<ge> cacheTtl c * 1000 \<longrightarrow>
           sent (snd (snd (request otherNet path params
             (cachePut c (clock w + int elapsed) (cacheKeyOf path params) body,
              \<lparr>clock = later, sent = sent w @ [endpoint c @ ''/'' @ path]\<rparr>))))
             = sent w @ [endpoint c @ ''/'' @ path, endpoint c @ ''/'' @ path]))
   \<and> (cacheGet c (clock w) (''saucer:'' @ path) = None
        \<and> net (saucerswapApi c @ ''/'' @ path) None (clock w) = (Response 200 body, elapsed)
        \<and> truthy body \<longrightarrow>
      saucerswapRequest net path (c, w)
        = (body, cachePut c (clock w + int elapsed) (''saucer:'' @ path) body,
           w\<lparr>clock := clock w + int elapsed, sent := sent w @ [saucerswapApi c @ ''/'' @ path]\<rparr>))
   \<and> (cacheGet c (clock w) (''bonzo:'' @ path) = None
        \<and> net (bonzoApi c @ ''/'' @ path) None (clock w) = (Response 200 body, elapsed)
        \<and> truthy body \<longrightarrow>
      bonzoRequest net path (c, w)
        = (body, cachePut c (clock w + int elapsed) (''bonzo:'' @ path) body,
           w\<lparr>clock := clock w + int elapsed, sent := sent w @ [bonzoApi c @ ''/'' @ path]\<rparr>))
   \<and> (cacheGet c (clock w) (''saucer:'' @ path) = Some payload \<longrightarrow>
      saucerswapRequest net path (c, w) = (payload, c, w))
   \<and> (cacheGet c (clock w) (''bonzo:'' @ path) = Some payload \<longrightarrow>
      bonzoRequest net path (c, w) = (payload, c, w))"
proof (intro conjI impI)
  assume "real_of_int (now - fetchedAt) < cacheTtl c * 1000"
  then show "cacheGet (cachePut c fetchedAt k payload) now k = Some payload"
    by (simp add: cacheGet_cachePut)
next
  assume fresh: "real_of_int (now - fetchedAt) < cacheTtl c * 1000"
    and "path \<noteq> [] \<and> k = cacheKeyOf path params \<and> clock w = now"
  then show "request net path params (cachePut c fetchedAt k payload, w)
               = (Inr payload, cachePut c fetchedAt k payload, w)"
    using request_hit [of path "cachePut c fetchedAt k payload" w params payload net]
    by (simp add: cacheGet_cachePut)
next
  assume "cacheTtl c * 1000 \<le> real_of_int (now - fetchedAt)"
  then show "cacheGet (cachePut c fetchedAt k payload) now k = None"
    by (simp add: cacheGet_cachePut)
next
  show "cache (cachePut c fetchedAt k payload) k = Some \<lparr>data = payload, timestamp = fetchedAt\<rparr>"
    by (simp add: cachePut_def)
next
  assume stale: "cacheTtl c * 1000 \<le> real_of_int (now - fetchedAt)"
    and "path \<noteq> [] \<and> k = cacheKeyOf path params \<and> clock w = now"
  moreover have "endpoint (cachePut c fetchedAt k payload) = endpoint c"
    by (simp add: cachePut_def)
  ultimately show "sent (snd (snd (request net path params (cachePut c fetchedAt k payload, w))))
                     = sent w @ [endpoint c @ ''/'' @ path]"
    using request_miss_sent [of path "cachePut c fetchedAt k payload" w params net]
    by (simp add: cacheGet_cachePut)
next
  assume "0 < \<epsilon> \<and> real_of_int now = real_of_int fetchedAt + cacheTtl c * 1000 - \<epsilon>"
  then show "cacheGet (cachePut c fetchedAt k payload) now k = Some payload"
    by (simp add: cacheGet_cachePut)
next
  assume "0 < \<epsilon> \<and> real_of_int now = real_of_int fetchedAt + cacheTtl c * 1000 + \<epsilon>"
  then show "cacheGet (cachePut c fetchedAt k payload) now k = None"
    by (simp add: cacheGet_cachePut)
next
  assume "path \<noteq> [] \<and> cacheGet c (clock w) (cacheKeyOf path params) = None
        \<and> net (endpoint c @ ''/'' @ path) params (clock w) = (Response 200 body, elapsed)
        \<and> truthy body"
  then show "request net path params (c, w)
        = (Inr body, cachePut c (clock w + int elapsed) (cacheKeyOf path params) body,
           w\<lparr>clock := clock w + int elapsed, sent := sent w @ [endpoint c @ ''/'' @ path]\<rparr>)"
    using request_store [of path c w params net body elapsed] by blast
next
  assume "path \<noteq> [] \<and> cacheGet c (clock w) (cacheKeyOf path params) = None
        \<and> net (endpoint c @ ''/'' @ path) params (clock w) = (Response 200 body, elapsed)
        \<and> truthy body"
    and "real_of_int (later - (clock w + int elapsed)) < cacheTtl c * 1000"
  then show "request otherNet path params
             (cachePut c (clock w + int elapsed) (cacheKeyOf path params) body,
              \<lparr>clock = later, sent = sent w @ [endpoint c @ ''/'' @ path]\<rparr>)
             = (Inr body, cachePut c (clock w + int elapsed) (cacheKeyOf path params) body,
                \<lparr>clock = later, sent = sent w @ [endpoint c @ ''/'' @ path]\<rparr>)"
    using request_hit
            [of path "cachePut c (clock w + int elapsed) (cacheKeyOf path params) body"
                "\<lparr>clock = later, sent = sent w @ [endpoint c @ ''/'' @ path]\<rparr>" params body otherNet]
    by (simp add: cacheGet_cachePut)
next
  assume "path \<noteq> [] \<and> cacheGet c (clock w) (cacheKeyOf path params) = None
        \<and> net (endpoint c @ ''/'' @ path) params (clock w) = (Response 200 body, elapsed)
        \<and> truthy body"
    and "cacheTtl c * 1000 \<le> real_of_int (later - (clock w + int elapsed))"
  moreover have "endpoint (cachePut c (clock w + int elapsed) (cacheKeyOf path params) body) = endpoint c"
    by (simp add: cachePut_def)
  ultimately show "sent (snd (snd (request otherNet path params
             (cachePut c (clock w + int elapsed) (cacheKeyOf path params) body,
              \<lparr>clock = later, sent = sent w @ [endpoint c @ ''/'' @ path]\<rparr>))))
             = sent w @ [endpoint c @ ''/'' @ path, endpoint c @ ''/'' @ path]"
    using request_miss_sent
            [of path "cachePut c (clock w + int elapsed) (cacheKeyOf path params) body"
                "\<lparr>clock = later, sent = sent w @ [endpoint c @ ''/'' @ path]\<rparr>" params otherNet]
    by (simp add: cacheGet_cachePut)
next
  assume "cacheGet c (clock w) (''saucer:'' @ path) = None
        \<and> net (saucerswapApi c @ ''/'' @ path) None (clock w) = (Response 200 body, elapsed)
        \<and> truthy body"
  then show "saucerswapRequest net path (c, w)
        = (body, cachePut c (clock w + int elapsed) (''saucer:'' @ path) body,
           w\<lparr>clock := clock w + int elapsed, sent := sent w @ [saucerswapApi c @ ''/'' @ path]\<rparr>)"
    using saucerswapRequest_store [of c w path net body elapsed] by blast
next
  assume "cacheGet c (clock w) (''bonzo:'' @ path) = None
        \<and> net (bonzoApi c @ ''/'' @ path) None (clock w) = (Response 200 body, elapsed)
        \<and> truthy body"
  then show "bonzoRequest net path (c, w)
        = (body, cachePut c (clock w + int elapsed) (''bonzo:'' @ path) body,
           w\<lparr>clock := clock w + int elapsed, sent := sent w @ [bonzoApi c @ ''/'' @ path]\<rparr>)"
    using bonzoRequest_store [of c w path net body elapsed] by blast
next
  assume "cacheGet c (clock w) (''saucer:'' @ path) = Some payload"
  then show "saucerswapRequest net path (c, w) = (payload, c, w)"
    by (simp add: saucerswapRequest_def)
next
  assume "cacheGet c (clock w) (''bonzo:'' @ path) = Some payload"
  then show "bonzoRequest net path (c, w) = (payload, c, w)"
    by (simp add: bonzoRequest_def)
qed

theorem cache_ttl_boundary_witness:
  "cacheGet (cachePut (newClient defaultConfig) 1700000000000 ''network/supply:{}'' (Str ''body'')) 1700000059999 ''network/supply:{}'' = Some (Str ''body'')
   \<and> request liveNet ''network/supply'' None (cachePut (newClient defaultConfig) 1700000000000 ''network/supply:{}'' (Str ''body''), \<lparr>clock = 1700000059999, sent = []\<rparr>)
       = (Inr (Str ''body''), cachePut (newClient defaultConfig) 1700000000000 ''network/supply:{}'' (Str ''body''), \<lparr>clock = 1700000059999, sent = []\<rparr>)
   \<and> cacheGet (cachePut (newClient defaultConfig) 1700000000000 ''network/supply:{}'' (Str ''body'')) 1700000060000 ''network/supply:{}'' = None
   \<and> cache (cachePut (newClient defaultConfig) 1700000000000 ''network/supply:{}'' (Str ''body'')) ''network/supply:{}'' = Some \<lparr>data = Str ''body'', timestamp = 1700000000000\<rparr>
   \<and> sent (snd (snd (request liveNet ''network/supply'' None
        (cachePut (newClient defaultConfig) 1700000000000 ''network/supply:{}'' (Str ''body''), \<lparr>clock = 1700000060000, sent = []\<rparr>))))
       = [''https://mainnet-public.mirrornode.hedera.com/api/v1/network/supply'']
   \<and> cacheGet (cachePut (newClient defaultConfig) 1700000000000 ''network/supply:{}'' (Str ''body'')) 1700000060001 ''network/supply:{}'' = None
   \<and> request liveNet ''network/supply'' None (newClient defaultConfig, startWorld)
       = (Inr (Obj [(''total_supply'', Str ''5000000000000000''), (''released_supply'', Str ''4200000000000000'')]),
          cachePut (newClient defaultConfig) 1700000000040 ''network/supply:{}'' (Obj [(''total_supply'', Str ''5000000000000000''), (''released_supply'', Str ''4200000000000000'')]),
          \<lparr>clock = 1700000000040, sent = [''https://mainnet-public.mirrornode.hedera.com/api/v1/network/supply'']\<rparr>)
   \<and> request deadNet ''network/supply'' None
        (cachePut (newClient defaultConfig) 1700000000040 ''network/supply:{}'' (Obj [(''total_supply'', Str ''5000000000000000''), (''released_supply'', Str ''4200000000000000'')]),
         \<lparr>clock = 1700000060039, sent = [''https://mainnet-public.mirrornode.hedera.com/api/v1/network/supply'']\<rparr>)
       = (Inr (Obj [(''total_supply'', Str ''5000000000000000''), (''released_supply'', Str ''4200000000000000'')]),
          cachePut (newClient defaultConfig) 1700000000040 ''network/supply:{}'' (Obj [(''total_supply'', Str ''5000000000000000''), (''released_supply'', Str ''4200000000000000'')]),
          \<lparr>clock = 1700000060039, sent = [''https://mainnet-public.mirrornode.hedera.com/api/v1/network/supply'']\<rparr>)
   \<and> sent (snd (snd (request deadNet ''network/supply'' None
        (cachePut (newClient defaultConfig) 1700000000040 ''network/supply:{}'' (Obj [(''total_supply'', Str ''5000000000000000''), (''released_supply'', Str ''4200000000000000'')]),
         \<lparr>clock = 1700000060040, sent = [''https://mainnet-public.mirrornode.hedera.com/api/v1/network/supply'']\<rparr>))))
       = [''https://mainnet-public.mirrornode.hedera.com/api/v1/network/supply'', ''https://mainnet-public.mirrornode.hedera.com/api/v1/network/supply'']
   \<and> saucerswapRequest liveNet ''stats'' (newClient defaultConfig, startWorld)
       = (Obj [(''tvlUsd'', Num (Fin 300))], cachePut (newClient defaultConfig) 1700000000040 ''saucer:stats'' (Obj [(''tvlUsd'', Num (Fin 300))]),
          \<lparr>clock = 1700000000040, sent = [''https://server.saucerswap.finance/api/public/stats'']\<rparr>)
   \<and> bonzoRequest liveNet ''Market'' (newClient defaultConfig, startWorld)
       = (Obj [(''totalMarketSupplied'', Obj [(''usdDisplay'', Str ''$100.00'')])], cachePut (newClient defaultConfig) 1700000000040 ''bonzo:Market'' (Obj [(''totalMarketSupplied'', Obj [(''usdDisplay'', Str ''$100.00'')])]),
          \<lparr>clock = 1700000000040, sent = [''https://mainnet-data.bonzo.finance/Market'']\<rparr>)
   \<and> saucerswapRequest deadNet ''stats'' (cachePut (newClient defaultConfig) 1700000000000 ''saucer:stats'' (Str ''body''), \<lparr>clock = 1700000059999, sent = []\<rparr>)
       = (Str ''body'', cachePut (newClient defaultConfig) 1700000000000 ''saucer:stats'' (Str ''body''), \<lparr>clock = 1700000059999, sent = []\<rparr>)
   \<and> bonzoRequest deadNet ''Market'' (cachePut (newClient defaultConfig) 1700000000000 ''bonzo:Market'' (Str ''body''), \<lparr>clock = 1700000059999, sent = []\<rparr>)
       = (Str ''body'', cachePut (newClient defaultConfig) 1700000000000 ''bonzo:Market'' (Str ''body''), \<lparr>clock = 1700000059999, sent = []\<rparr>)"
proof -
  have h0: "cacheGet (cachePut (newClient defaultConfig) 1700000000000 ''network/supply:{}'' (Str ''body'')) 1700000059999 ''network/supply:{}'' = Some (Str ''body'')"
    using cache_ttl_boundary
          [where now = 1700000059999 and fetchedAt = 1700000000000 and c = "newClient defaultConfig" and k = "''network/supply:{}''"
             and payload = "Str ''body''" and path = "''network/supply''" and params = None
             and w = "\<lparr>clock = 1700000059999, sent = []\<rparr>" and net = liveNet and \<epsilon> = 1
             and body = "Obj [(''total_supply'', Str ''5000000000000000''), (''released_supply'', Str ''4200000000000000'')]" and elapsed = 40 and later = 1700000060039 and otherNet = deadNet]
    by (simp add: newClient_def defaultConfig_def numOrDefault_def orDefault_def cacheKeyOf_def
          liveNet_def startWorld_def cacheGet_def cachePut_def)
  have h1: "request liveNet ''network/supply'' None (cachePut (newClient defaultConfig) 1700000000000 ''network/supply:{}'' (Str ''body''), \<lparr>clock = 1700000059999, sent = []\<rparr>)
       = (Inr (Str ''body''), cachePut (newClient defaultConfig) 1700000000000 ''network/supply:{}'' (Str ''body''), \<lparr>clock = 1700000059999, sent = []\<rparr>)"
    using cache_ttl_boundary
          [where now = 1700000059999 and fetchedAt = 1700000000000 and c = "newClient defaultConfig" and k = "''network/supply:{}''"
             and payload = "Str ''body''" and path = "''network/supply''" and params = None
             and w = "\<lparr>clock = 1700000059999, sent = []\<rparr>" and net = liveNet and \<epsilon> = 1
             and body = "Obj [(''total_supply'', Str ''5000000000000000''), (''released_supply'', Str ''4200000000000000'')]" and elapsed = 40 and later = 1700000060039 and otherNet = deadNet]
    by (simp add: newClient_def defaultConfig_def numOrDefault_def orDefault_def cacheKeyOf_def
          liveNet_def startWorld_def cacheGet_def cachePut_def)
  have h2: "cacheGet (cachePut (newClient defaultConfig) 1700000000000 ''network/supply:{}'' (Str ''body'')) 1700000060000 ''network/supply:{}'' = None"
    using cache_ttl_boundary
          [where now = 1700000060000 and fetchedAt = 1700000000000 and c = "newClient defaultConfig" and k = "''network/supply:{}''"
             and payload = "Str ''body''" and path = "''network/supply''" and params = None
             and w = "\<lparr>clock = 1700000060000, sent = []\<rparr>" and net = liveNet and \<epsilon> = 1
             and body = "Obj [(''total_supply'', Str ''5000000000000000''), (''released_supply'', Str ''4200000000000000'')]" and elapsed = 40 and later = 1700000060040 and otherNet = deadNet]
    by (simp add: newClient_def defaultConfig_def numOrDefault_def orDefault_def cacheKeyOf_def
          liveNet_def startWorld_def cacheGet_def cachePut_def)
  have h3: "cache (cachePut (newClient defaultConfig) 1700000000000 ''network/supply:{}'' (Str ''body'')) ''network/supply:{}'' = Some \<lparr>data = Str ''body'', timestamp = 1700000000000\<rparr>"
    using cache_ttl_boundary
          [where now = 1700000060000 and fetchedAt = 1700000000000 and c = "newClient defaultConfig" and k = "''network/supply:{}''"
             and payload = "Str ''body''" and path = "''network/supply''" and params = None
             and w = "\<lparr>clock = 1700000060000, sent = []\<rparr>" and net = liveNet and \<epsilon> = 1
             and body = "Obj [(''total_supply'', Str ''5000000000000000''), (''released_supply'', Str ''4200000000000000'')]" and elapsed = 40 and later = 1700000060040 and otherNet = deadNet]
    by (simp add: newClient_def defaultConfig_def numOrDefault_def orDefault_def cacheKeyOf_def
          liveNet_def startWorld_def cacheGet_def cachePut_def)
  have h4: "sent (snd (snd (request liveNet ''network/supply'' None
        (cachePut (newClient defaultConfig) 1700000000000 ''network/supply:{}'' (Str ''body''), \<lparr>clock = 1700000060000, sent = []\<rparr>))))
       = [''https://mainnet-public.mirrornode.hedera.com/api/v1/network/supply'']"
    using cache_ttl_boundary
          [where now = 1700000060000 and fetchedAt = 1700000000000 and c = "newClient defaultConfig" and k = "''network/supply:{}''"
             and payload = "Str ''body''" and path = "''network/supply''" and params = None
             and w = "\<lparr>clock = 1700000060000, sent = []\<rparr>" and net = liveNet and \<epsilon> = 1
             and body = "Obj [(''total_supply'', Str ''5000000000000000''), (''released_supply'', Str ''4200000000000000'')]" and elapsed = 40 and later = 1700000060040 and otherNet = deadNet]
    by (simp add: newClient_def defaultConfig_def numOrDefault_def orDefault_def cacheKeyOf_def
          liveNet_def startWorld_def cacheGet_def cachePut_def)
  have h5: "cacheGet (cachePut (newClient defaultConfig) 1700000000000 ''network/supply:{}'' (Str ''body'')) 1700000060001 ''network/supply:{}'' = None"
    using cache_ttl_boundary
          [where now = 1700000060001 and fetchedAt = 1700000000000 and c = "newClient defaultConfig" and k = "''network/supply:{}''"
             and payload = "Str ''body''" and path = "''network/supply''" and params = None
             and w = "\<lparr>clock = 1700000060001, sent = []\<rparr>" and net = liveNet and \<epsilon> = 1
             and body = "Obj [(''total_supply'', Str ''5000000000000000''), (''released_supply'', Str ''4200000000000000'')]" and elapsed = 40 and later = 1700000060040 and otherNet = deadNet]
    by (simp add: newClient_def defaultConfig_def numOrDefault_def orDefault_def cacheKeyOf_def
          liveNet_def startWorld_def cacheGet_def cachePut_def)
  have h6: "request liveNet ''network/supply'' None (newClient defaultConfig, startWorld)
       = (Inr (Obj [(''total_supply'', Str ''5000000000000000''), (''released_supply'', Str ''4200000000000000'')]),
          cachePut (newClient defaultConfig) 1700000000040 ''network/supply:{}'' (Obj [(''total_supply'', Str ''5000000000000000''), (''released_supply'', Str ''4200000000000000'')]),
          \<lparr>clock = 1700000000040, sent = [''https://mainnet-public.mirrornode.hedera.com/api/v1/network/supply'']\<rparr>)"
    using cache_ttl_boundary
          [where now = 1700000000000 and fetchedAt = 1700000000000 and c = "newClient defaultConfig" and k = "''network/supply:{}''"
             and payload = "Str ''body''" and path = "''network/supply''" and params = None
             and w = "startWorld" and net = liveNet and \<epsilon> = 1
             and body = "Obj [(''total_supply'', Str ''5000000000000000''), (''released_supply'', Str ''4200000000000000'')]" and elapsed = 40 and later = 1700000060039 and otherNet = deadNet]
    by (simp add: newClient_def defaultConfig_def numOrDefault_def orDefault_def cacheKeyOf_def
          liveNet_def startWorld_def cacheGet_def cachePut_def)
  have h7: "request deadNet ''network/supply'' None
        (cachePut (newClient defaultConfig) 1700000000040 ''network/supply:{}'' (Obj [(''total_supply'', Str ''5000000000000000''), (''released_supply'', Str ''4200000000000000'')]),
         \<lparr>clock = 1700000060039, sent = [''https://mainnet-public.mirrornode.hedera.com/api/v1/network/supply'']\<rparr>)
       = (Inr (Obj [(''total_supply'', Str ''5000000000000000''), (''released_supply'', Str ''4200000000000000'')]),
          cachePut (newClient defaultConfig) 1700000000040 ''network/supply:{}'' (Obj [(''total_supply'', Str ''5000000000000000''), (''released_supply'', Str ''4200000000000000'')]),
          \<lparr>clock = 1700000060039, sent = [''https://mainnet-public.mirrornode.hedera.com/api/v1/network/supply'']\<rparr>)"
    using cache_ttl_boundary
          [where now = 1700000000000 and fetchedAt = 1700000000000 and c = "newClient defaultConfig" and k = "''network/supply:{}''"
             and payload = "Str ''body''" and path = "''network/supply''" and params = None
             and w = "startWorld" and net = liveNet and \<epsilon> = 1
             and body = "Obj [(''total_supply'', Str ''5000000000000000''), (''released_supply'', Str ''4200000000000000'')]" and elapsed = 40 and later = 1700000060039 and otherNet = deadNet]
    by (simp add: newClient_def defaultConfig_def numOrDefault_def orDefault_def cacheKeyOf_def
          liveNet_def startWorld_def cacheGet_def cachePut_def)
  have h8: "sent (snd (snd (request deadNet ''network/supply'' None
        (cachePut (newClient defaultConfig) 1700000000040 ''network/supply:{}'' (Obj [(''total_supply'', Str ''5000000000000000''), (''released_supply'', Str ''4200000000000000'')]),
         \<lparr>clock = 1700000060040, sent = [''https://mainnet-public.mirrornode.hedera.com/api/v1/network/supply'']\<rparr>))))
       = [''https://mainnet-public.mirrornode.hedera.com/api/v1/network/supply'', ''https://mainnet-public.mirrornode.hedera.com/api/v1/network/supply'']"
    using cache_ttl_boundary
          [where now = 1700000000000 and fetchedAt = 1700000000000 and c = "newClient defaultConfig" and k = "''network/supply:{}''"
             and payload = "Str ''body''" and path = "''network/supply''" and params = None
             and w = "startWorld" and net = liveNet and \<epsilon> = 1
             and body = "Obj [(''total_supply'', Str ''5000000000000000''), (''released_supply'', Str ''4200000000000000'')]" and elapsed = 40 and later = 1700000060040 and otherNet = deadNet]
    by (simp add: newClient_def defaultConfig_def numOrDefault_def orDefault_def cacheKeyOf_def
          liveNet_def startWorld_def cacheGet_def cachePut_def)
  have h9: "saucerswapRequest liveNet ''stats'' (newClient defaultConfig, startWorld)
       = (Obj [(''tvlUsd'', Num (Fin 300))], cachePut (newClient defaultConfig) 1700000000040 ''saucer:stats'' (Obj [(''tvlUsd'', Num (Fin 300))]),
          \<lparr>clock = 1700000000040, sent = [''https://server.saucerswap.finance/api/public/stats'']\<rparr>)"
    using cache_ttl_boundary
          [where now = 1700000000000 and fetchedAt = 1700000000000 and c = "newClient defaultConfig" and k = "''network/supply:{}''"
             and payload = "Str ''body''" and path = "''stats''" and params = None
             and w = "startWorld" and net = liveNet and \<epsilon> = 1
             and body = "Obj [(''tvlUsd'', Num (Fin 300))]" and elapsed = 40 and later = 1700000060040 and otherNet = deadNet]
    by (simp add: newClient_def defaultConfig_def numOrDefault_def orDefault_def cacheKeyOf_def
          liveNet_def startWorld_def cacheGet_def cachePut_def)
  have h10: "bonzoRequest liveNet ''Market'' (newClient defaultConfig, startWorld)
       = (Obj [(''totalMarketSupplied'', Obj [(''usdDisplay'', Str ''$100.00'')])], cachePut (newClient defaultConfig) 1700000000040 ''bonzo:Market'' (Obj [(''totalMarketSupplied'', Obj [(''usdDisplay'', Str ''$100.00'')])]),
          \<lparr>clock = 1700000000040, sent = [''https://mainnet-data.bonzo.finance/Market'']\<rparr>)"
    using cache_ttl_boundary
          [where now = 1700000000000 and fetchedAt = 1700000000000 and c = "newClient defaultConfig" and k = "''network/supply:{}''"
             and payload = "Str ''body''" and path = "''Market''" and params = None
             and w = "startWorld" and net = liveNet and \<epsilon> = 1
             and body = "Obj [(''totalMarketSupplied'', Obj [(''usdDisplay'', Str ''$100.00'')])]" and elapsed = 40 and later = 1700000060040 and otherNet = deadNet]
    by (simp add: newClient_def defaultConfig_def numOrDefault_def orDefault_def cacheKeyOf_def
          liveNet_def startWorld_def cacheGet_def cachePut_def)
  have h11: "saucerswapRequest deadNet ''stats'' (cachePut (newClient defaultConfig) 1700000000000 ''saucer:stats'' (Str ''body''), \<lparr>clock = 1700000059999, sent = []\<rparr>)
       = (Str ''body'', cachePut (newClient defaultConfig) 1700000000000 ''saucer:stats'' (Str ''body''), \<lparr>clock = 1700000059999, sent = []\<rparr>)"
    using cache_ttl_boundary
          [where now = 1700000000000 and fetchedAt = 1700000000000 and c = "cachePut (newClient defaultConfig) 1700000000000 ''saucer:stats'' (Str ''body'')" and k = "''network/supply:{}''"
             and payload = "Str ''body''" and path = "''stats''" and params = None
             and w = "\<lparr>clock = 1700000059999, sent = []\<rparr>" and net = deadNet and \<epsilon> = 1
             and body = "Obj [(''total_supply'', Str ''5000000000000000''), (''released_supply'', Str ''4200000000000000'')]" and elapsed = 40 and later = 1700000060040 and otherNet = deadNet]
    by (simp add: newClient_def defaultConfig_def numOrDefault_def orDefault_def cacheKeyOf_def
          liveNet_def startWorld_def cacheGet_def cachePut_def)
  have h12: "bonzoRequest deadNet ''Market'' (cachePut (newClient defaultConfig) 1700000000000 ''bonzo:Market'' (Str ''body''), \<lparr>clock = 1700000059999, sent = []\<rparr>)
       = (Str ''body'', cachePut (newClient defaultConfig) 1700000000000 ''bonzo:Market'' (Str ''body''), \<lparr>clock = 1700000059999, sent = []\<rparr>)"
    using cache_ttl_boundary
          [where now = 1700000000000 and fetchedAt = 1700000000000 and c = "cachePut (newClient defaultConfig) 1700000000000 ''bonzo:Market'' (Str ''body'')" and k = "''network/supply:{}''"
             and payload = "Str ''body''" and path = "''Market''" and params = None
             and w = "\<lparr>clock = 1700000059999, sent = []\<rparr>" and net = deadNet and \<epsilon> = 1
             and body = "Obj [(''total_supply'', Str ''5000000000000000''), (''released_supply'', Str ''4200000000000000'')]" and elapsed = 40 and later = 1700000060040 and otherNet = deadNet]
    by (simp add: newClient_def defaultConfig_def numOrDefault_def orDefault_def cacheKeyOf_def
          liveNet_def startWorld_def cacheGet_def cachePut_def)
  show ?thesis
    using h0 h1 h2 h3 h4 h5 h6 h7 h8 h9 h10 h11 h12 by blast
qed

subsection \<open>The distribution of liquidity\<close>











text \<open>
  When \<^verbatim>\<open>tvlUsd\<close> arrives as the string \<^verbatim>\<open>"300"\<close>, the operator \<^verbatim>\<open>+\<close>
  joins strings: the total is the string \<^verbatim>\<open>"300100"\<close> and the percentages are taken
  of the number 300100.
\<close>

lemma summarise_string_tvl:
  "totalLiquidityUsd
     (summarise p (Obj [(''tvlUsd'', Str ''300'')]) []
        (Some (mapMarkets (Obj [(''totalMarketSupplied'', Obj [(''usdDisplay'', Str ''$100.00'')])]) t))
        t e1 e2 e3) = Str ''300100''
   \<and> dexPercentage
     (summarise p (Obj [(''tvlUsd'', Str ''300'')]) []
        (Some (mapMarkets (Obj [(''totalMarketSupplied'', Obj [(''usdDisplay'', Str ''$100.00'')])]) t))
        t e1 e2 e3) = Fin (300 / 300100 * 100)
   \<and> lendingPercentage
     (summarise p (Obj [(''tvlUsd'', Str ''300'')]) []
        (Some (mapMarkets (Obj [(''totalMarketSupplied'', Obj [(''usdDisplay'', Str ''$100.00'')])]) t))
        t e1 e2 e3) = Fin (100 / 300100 * 100)"
  by (simp add: summarise_def Let_def mapMarkets_def jsOr_def parseUsdValue_def parseFloat_def
        decimalLiteral_def isWhiteSpace_def isDigit_def digitValue_def digitsValue_def
        fromReal_def overflowBound_def jsPlus_def numberToString_def stringToNumber_def)

subsection \<open>Unit conversion\<close>







end
